theory Spec2Isabelle
  imports Complex_Main "HOL-Library.Monad_Syntax"
begin

section \<open>Cross-view ROI synchronisation (main\_window\_functions.py)\<close>

text \<open>
  The three 2D views are told apart by the strings 'axial', 'coronal' and 'sagittal';
  every view is created with one of the three, so the tag is an enumeration.
  A 2D ROI is a QRectF (floating x, y, width, height, idealised as reals);
  the 3D ROI is the dictionary built at the end of
  convert\_roi\_to\_3d\_preserving\_dimensions: six Python integers and the tag of the
  view that produced it.
\<close>

datatype orientation = Axial | Coronal | Sagittal

record rect =
  rect_x :: real
  rect_y :: real
  rect_width :: real
  rect_height :: real

record roi3d =
  x_min :: int
  x_max :: int
  y_min :: int
  y_max :: int
  z_min :: int
  z_max :: int
  source_orientation :: orientation

text \<open>image.GetSize() is (width, height, depth).\<close>

record image_size =
  size0 :: int
  size1 :: int
  size2 :: int

text \<open>
  The part of MainWindowFunctions (and of the widgets it reaches through main\_window)
  that the ROI code reads and writes: the loaded image (None before loading), the
  3D ROI, the re-entrancy flag, the three scrollbar values and the rectangle each
  view was last given through set\_roi\_from\_external.
\<close>

record main_window_functions =
  image :: "image_size option"
  roi_rect_3d :: "roi3d option"
  roi_update_in_progress :: bool
  axial_scrollbar :: int
  coronal_scrollbar :: int
  sagittal_scrollbar :: int
  view_roi :: "orientation \<Rightarrow> rect option"

text \<open>Python's int() on a float truncates toward zero.\<close>

definition py_int :: "real \<Rightarrow> int" where
  "py_int r = (if 0 \<le> r then \<lfloor>r\<rfloor> else \<lceil>r\<rceil>)"

definition display_width :: real where
  "display_width = 400"

definition display_height :: real where
  "display_height = 400"

text \<open>
  convert\_roi\_to\_3d\_preserving\_dimensions (lines 361-465). The six bounds start from
  the existing ROI, or from the full volume; the branch of the editing view then
  overwrites the two visible pairs, and the hidden pair only when there was no ROI.

  The scale and the products are float64 in the source and exact reals here. The two
  agree unless the rounded product falls on the other side of an integer than the
  exact one: for size 140 and edge 180 the exact product is 63 and the float64
  product is just below it, so the source's index is 62. An index of the source can
  therefore differ by one from the index computed here. The properties below that
  concern the visible pairs are stated so that they hold with either index: they
  speak of bounds, of order and of independence, never of the exact value of a
  scaled index. The hidden pair is integer arithmetic and is exact.
\<close>

definition convert_roi_to_3d_preserving_dimensions ::
  "main_window_functions \<Rightarrow> rect \<Rightarrow> orientation \<Rightarrow> roi3d option" where
  "convert_roi_to_3d_preserving_dimensions st r orientation =
     (case image st of
        None \<Rightarrow> None
      | Some sz \<Rightarrow>
          let axial_index = axial_scrollbar st;
              coronal_index = coronal_scrollbar st;
              sagittal_index = sagittal_scrollbar st;
              start = (case roi_rect_3d st of
                         Some old \<Rightarrow> old
                       | None \<Rightarrow> \<lparr>x_min = 0, x_max = size0 sz,
                                   y_min = 0, y_max = size1 sz,
                                   z_min = 0, z_max = size2 sz,
                                   source_orientation = orientation\<rparr>)
          in Some
            (case orientation of
               Axial \<Rightarrow>
                 let scale_x = real_of_int (size0 sz) / display_width;
                     scale_y = real_of_int (size1 sz) / display_height;
                     b = start\<lparr>
                       x_min := max 0 (py_int (rect_x r * scale_x)),
                       x_max := min (size0 sz) (py_int ((rect_x r + rect_width r) * scale_x)),
                       y_min := max 0 (py_int (rect_y r * scale_y)),
                       y_max := min (size1 sz) (py_int ((rect_y r + rect_height r) * scale_y)),
                       source_orientation := orientation\<rparr>
                 in (if roi_rect_3d st = None then
                       let z_center = axial_index;
                           z_thickness = max 1 (size2 sz div 10)
                       in b\<lparr>z_min := max 0 (z_center - z_thickness div 2),
                            z_max := min (size2 sz) (z_center + z_thickness div 2)\<rparr>
                     else b)
             | Coronal \<Rightarrow>
                 let scale_x = real_of_int (size0 sz) / display_width;
                     scale_z = real_of_int (size2 sz) / display_height;
                     b = start\<lparr>
                       x_min := max 0 (py_int (rect_x r * scale_x)),
                       x_max := min (size0 sz) (py_int ((rect_x r + rect_width r) * scale_x)),
                       z_min := max 0 (py_int (rect_y r * scale_z)),
                       z_max := min (size2 sz) (py_int ((rect_y r + rect_height r) * scale_z)),
                       source_orientation := orientation\<rparr>
                 in (if roi_rect_3d st = None then
                       let y_center = coronal_index;
                           y_thickness = max 1 (size1 sz div 10)
                       in b\<lparr>y_min := max 0 (y_center - y_thickness div 2),
                            y_max := min (size1 sz) (y_center + y_thickness div 2)\<rparr>
                     else b)
             | Sagittal \<Rightarrow>
                 let scale_y = real_of_int (size1 sz) / display_width;
                     scale_z = real_of_int (size2 sz) / display_height;
                     b = start\<lparr>
                       y_min := max 0 (py_int (rect_x r * scale_y)),
                       y_max := min (size1 sz) (py_int ((rect_x r + rect_width r) * scale_y)),
                       z_min := max 0 (py_int (rect_y r * scale_z)),
                       z_max := min (size2 sz) (py_int ((rect_y r + rect_height r) * scale_z)),
                       source_orientation := orientation\<rparr>
                 in (if roi_rect_3d st = None then
                       let x_center = sagittal_index;
                           x_thickness = max 1 (size0 sz div 10)
                       in b\<lparr>x_min := max 0 (x_center - x_thickness div 2),
                            x_max := min (size0 sz) (x_center + x_thickness div 2)\<rparr>
                     else b)))"

text \<open>
  The rectangle that propagate\_roi\_to\_single\_view (lines 540-590) builds for a view.
  display / size[i] is a float division: a zero dimension raises ZeroDivisionError,
  which the function's handler swallows, so nothing is built (None).
\<close>

definition project_roi :: "image_size \<Rightarrow> roi3d \<Rightarrow> orientation \<Rightarrow> rect option" where
  "project_roi sz roi target =
     (case target of
        Axial \<Rightarrow>
          if size0 sz = 0 \<or> size1 sz = 0 then None
          else let scale_x = display_width / real_of_int (size0 sz);
                   scale_y = display_height / real_of_int (size1 sz)
               in Some \<lparr>rect_x = real_of_int (x_min roi) * scale_x,
                         rect_y = real_of_int (y_min roi) * scale_y,
                         rect_width = real_of_int (x_max roi - x_min roi) * scale_x,
                         rect_height = real_of_int (y_max roi - y_min roi) * scale_y\<rparr>
      | Coronal \<Rightarrow>
          if size0 sz = 0 \<or> size2 sz = 0 then None
          else let scale_x = display_width / real_of_int (size0 sz);
                   scale_z = display_height / real_of_int (size2 sz)
               in Some \<lparr>rect_x = real_of_int (x_min roi) * scale_x,
                         rect_y = real_of_int (z_min roi) * scale_z,
                         rect_width = real_of_int (x_max roi - x_min roi) * scale_x,
                         rect_height = real_of_int (z_max roi - z_min roi) * scale_z\<rparr>
      | Sagittal \<Rightarrow>
          if size1 sz = 0 \<or> size2 sz = 0 then None
          else let scale_y = display_width / real_of_int (size1 sz);
                   scale_z = display_height / real_of_int (size2 sz)
               in Some \<lparr>rect_x = real_of_int (y_min roi) * scale_y,
                         rect_y = real_of_int (z_min roi) * scale_z,
                         rect_width = real_of_int (y_max roi - y_min roi) * scale_y,
                         rect_height = real_of_int (z_max roi - z_min roi) * scale_z\<rparr>)"

text \<open>
  view.set\_roi\_from\_external(rect) stores the rectangle in the view (image\_viewer.py,
  line 376); it catches its own exceptions.
\<close>

definition set_roi_from_external ::
  "main_window_functions \<Rightarrow> orientation \<Rightarrow> rect option \<Rightarrow> main_window_functions" where
  "set_roi_from_external st v r = st\<lparr>view_roi := (view_roi st)(v := r)\<rparr>"

text \<open>
  propagate\_roi\_to\_single\_view: nothing happens without a ROI, on an exception, or
  when the projected rectangle is not more than one display unit wide and high.
\<close>

definition propagate_roi_to_single_view ::
  "main_window_functions \<Rightarrow> orientation \<Rightarrow> main_window_functions" where
  "propagate_roi_to_single_view st target =
     (case roi_rect_3d st of
        None \<Rightarrow> st
      | Some roi \<Rightarrow>
          (case image st of
             None \<Rightarrow> st
           | Some sz \<Rightarrow>
               (case project_roi sz roi target of
                  None \<Rightarrow> st
                | Some r \<Rightarrow>
                    if rect_width r > 1 \<and> rect_height r > 1
                    then set_roi_from_external st target (Some r)
                    else st)))"


text \<open>
  propagate\_roi\_to\_views (lines 471-538) and propagate\_roi\_immediate (lines 136-212):
  the rectangles of the views other than the source are all computed first (a
  ZeroDivisionError there leaves every view untouched), then each one that is more
  than one display unit wide and high is handed to its view. The two functions differ
  only in where the size test is written and in the redraw calls.
\<close>

definition push_if_valid ::
  "main_window_functions \<Rightarrow> orientation \<times> rect option \<Rightarrow> main_window_functions" where
  "push_if_valid st vr =
     (case snd vr of
        None \<Rightarrow> st
      | Some r \<Rightarrow>
          if rect_width r > 1 \<and> rect_height r > 1
          then set_roi_from_external st (fst vr) (Some r)
          else st)"

definition propagate_roi_to_views ::
  "main_window_functions \<Rightarrow> orientation \<Rightarrow> main_window_functions" where
  "propagate_roi_to_views st source =
     (case roi_rect_3d st of
        None \<Rightarrow> st
      | Some roi \<Rightarrow>
          (case image st of
             None \<Rightarrow> st
           | Some sz \<Rightarrow>
               let targets = filter (\<lambda>v. v \<noteq> source) [Axial, Coronal, Sagittal];
                   views_to_update = map (\<lambda>v. (v, project_roi sz roi v)) targets
               in if list_ex (\<lambda>vr. snd vr = None) views_to_update then st
                  else foldl push_if_valid st views_to_update))"

definition propagate_roi_immediate ::
  "main_window_functions \<Rightarrow> orientation \<Rightarrow> main_window_functions" where
  "propagate_roi_immediate st source = propagate_roi_to_views st source"

text \<open>
  The slice-intersection tests (lines 688-710): both ends of the range are included.
\<close>

definition roi_intersects_coronal_slice :: "main_window_functions \<Rightarrow> int \<Rightarrow> bool" where
  "roi_intersects_coronal_slice st slice_index =
     (case roi_rect_3d st of
        None \<Rightarrow> False
      | Some roi \<Rightarrow> y_min roi \<le> slice_index \<and> slice_index \<le> y_max roi)"

definition roi_intersects_sagittal_slice :: "main_window_functions \<Rightarrow> int \<Rightarrow> bool" where
  "roi_intersects_sagittal_slice st slice_index =
     (case roi_rect_3d st of
        None \<Rightarrow> False
      | Some roi \<Rightarrow> x_min roi \<le> slice_index \<and> slice_index \<le> x_max roi)"

definition roi_intersects_axial_slice :: "main_window_functions \<Rightarrow> int \<Rightarrow> bool" where
  "roi_intersects_axial_slice st slice_index =
     (case roi_rect_3d st of
        None \<Rightarrow> False
      | Some roi \<Rightarrow> z_min roi \<le> slice_index \<and> slice_index \<le> z_max roi)"

text \<open>
  update\_coronal\_view, update\_sagittal\_view, update\_axial\_view (lines 646-686), the
  slots of the scrollbars' valueChanged signals: after the slice is redrawn (not
  modelled), the view's ROI overlay is rebuilt when the ROI meets the new slice.
\<close>

definition update_coronal_view :: "main_window_functions \<Rightarrow> main_window_functions" where
  "update_coronal_view st =
     (if roi_rect_3d st \<noteq> None \<and> roi_intersects_coronal_slice st (coronal_scrollbar st)
      then propagate_roi_to_single_view st Coronal else st)"

definition update_sagittal_view :: "main_window_functions \<Rightarrow> main_window_functions" where
  "update_sagittal_view st =
     (if roi_rect_3d st \<noteq> None \<and> roi_intersects_sagittal_slice st (sagittal_scrollbar st)
      then propagate_roi_to_single_view st Sagittal else st)"

definition update_axial_view :: "main_window_functions \<Rightarrow> main_window_functions" where
  "update_axial_view st =
     (if roi_rect_3d st \<noteq> None \<and> roi_intersects_axial_slice st (axial_scrollbar st)
      then propagate_roi_to_single_view st Axial else st)"

text \<open>
  QScrollBar.setValue keeps the value inside the scrollbar's range, which
  update\_scrollbars (lines 625-636) sets to 0 .. dimension - 1, and emits valueChanged
  only when the stored value changes.
\<close>

definition scrollbar_value :: "int \<Rightarrow> int \<Rightarrow> int" where
  "scrollbar_value n v = max 0 (min (max 0 (n - 1)) v)"

text \<open>
  navigate\_views\_to\_show\_roi (lines 214-240): each scrollbar is moved to the centre of
  the ROI on its depth axis, unless it is already there.
\<close>

definition navigate_views_to_show_roi :: "main_window_functions \<Rightarrow> main_window_functions" where
  "navigate_views_to_show_roi st =
     (case roi_rect_3d st of
        None \<Rightarrow> st
      | Some roi \<Rightarrow>
          (case image st of
             None \<Rightarrow> st
           | Some sz \<Rightarrow>
               let x_center = (x_min roi + x_max roi) div 2;
                   y_center = (y_min roi + y_max roi) div 2;
                   z_center = (z_min roi + z_max roi) div 2;
                   st1 = (if z_center \<noteq> axial_scrollbar st
                            \<and> scrollbar_value (size2 sz) z_center \<noteq> axial_scrollbar st
                          then update_axial_view
                                 (st\<lparr>axial_scrollbar := scrollbar_value (size2 sz) z_center\<rparr>)
                          else st);
                   st2 = (if y_center \<noteq> coronal_scrollbar st1
                            \<and> scrollbar_value (size1 sz) y_center \<noteq> coronal_scrollbar st1
                          then update_coronal_view
                                 (st1\<lparr>coronal_scrollbar := scrollbar_value (size1 sz) y_center\<rparr>)
                          else st1);
                   st3 = (if x_center \<noteq> sagittal_scrollbar st2
                            \<and> scrollbar_value (size0 sz) x_center \<noteq> sagittal_scrollbar st2
                          then update_sagittal_view
                                 (st2\<lparr>sagittal_scrollbar := scrollbar_value (size0 sz) x_center\<rparr>)
                          else st2)
               in st3))"

text \<open>
  The statements of the two handlers that are not wrapped in a try block of their own,
  and so can reach the handler's except clause: formatting the log line, rect.isEmpty(),
  and clearing a view. The handlers take the set of places that raise as a parameter.
\<close>

datatype site = AtPrint | AtIsEmpty | AtClearView orientation

datatype outcome = Completed | Raised

text \<open>QRectF.isEmpty(): the width or the height is not positive.\<close>

definition isEmpty :: "rect \<Rightarrow> bool" where
  "isEmpty r = (rect_width r \<le> 0 \<or> rect_height r \<le> 0)"

fun clear_other_views ::
  "(site \<Rightarrow> bool) \<Rightarrow> orientation \<Rightarrow> orientation list \<Rightarrow> main_window_functions
     \<Rightarrow> main_window_functions \<times> outcome" where
  "clear_other_views raises source [] st = (st, Completed)"
| "clear_other_views raises source (v # views) st =
     (if v \<noteq> source
      then (if raises (AtClearView v) then (st, Raised)
            else clear_other_views raises source views
                   (set_roi_from_external st v None))
      else clear_other_views raises source views st)"

text \<open>
  The body of on\_roi\_changed between setting and resetting the flag (lines 334-354).
\<close>

definition on_roi_changed_body ::
  "(site \<Rightarrow> bool) \<Rightarrow> main_window_functions \<Rightarrow> rect option \<Rightarrow> orientation
     \<Rightarrow> main_window_functions \<times> outcome" where
  "on_roi_changed_body raises st r source =
     (if raises AtPrint then (st, Raised)
      else case r of
        None \<Rightarrow>
          clear_other_views raises source [Coronal, Sagittal, Axial]
            (st\<lparr>roi_rect_3d := None\<rparr>)
      | Some rc \<Rightarrow>
          if raises AtIsEmpty then (st, Raised)
          else if isEmpty rc then
            clear_other_views raises source [Coronal, Sagittal, Axial]
              (st\<lparr>roi_rect_3d := None\<rparr>)
          else
            let st1 = st\<lparr>roi_rect_3d :=
                        convert_roi_to_3d_preserving_dimensions st rc source\<rparr>
            in if roi_rect_3d st1 \<noteq> None
               then (propagate_roi_to_views (navigate_views_to_show_roi st1) source,
                     Completed)
               else (st1, Completed))"

text \<open>
  on\_roi\_changed (lines 325-359): an event that finds the flag set returns at once;
  otherwise the flag is set, the body runs, and the flag is reset both at the end of
  the try block and in the except clause.
\<close>

definition on_roi_changed ::
  "(site \<Rightarrow> bool) \<Rightarrow> main_window_functions \<Rightarrow> rect option \<Rightarrow> orientation
     \<Rightarrow> main_window_functions" where
  "on_roi_changed raises st r source =
     (if roi_update_in_progress st then st
      else case on_roi_changed_body raises (st\<lparr>roi_update_in_progress := True\<rparr>)
                  r source of
        (st', Completed) \<Rightarrow> st'\<lparr>roi_update_in_progress := False\<rparr>
      | (st', Raised) \<Rightarrow> st'\<lparr>roi_update_in_progress := False\<rparr>)"

text \<open>on\_roi\_changed\_immediate (lines 113-134), the handler of live drags.\<close>

definition on_roi_changed_immediate_body ::
  "(site \<Rightarrow> bool) \<Rightarrow> main_window_functions \<Rightarrow> rect \<Rightarrow> orientation
     \<Rightarrow> main_window_functions \<times> outcome" where
  "on_roi_changed_immediate_body raises st rc source =
     (if raises AtPrint then (st, Raised)
      else
        let st1 = st\<lparr>roi_rect_3d :=
                    convert_roi_to_3d_preserving_dimensions st rc source\<rparr>
        in if roi_rect_3d st1 \<noteq> None
           then (propagate_roi_immediate (navigate_views_to_show_roi st1) source,
                 Completed)
           else (st1, Completed))"

definition on_roi_changed_immediate ::
  "(site \<Rightarrow> bool) \<Rightarrow> main_window_functions \<Rightarrow> rect \<Rightarrow> orientation
     \<Rightarrow> main_window_functions" where
  "on_roi_changed_immediate raises st rc source =
     (if roi_update_in_progress st then st
      else case on_roi_changed_immediate_body raises (st\<lparr>roi_update_in_progress := True\<rparr>)
                  rc source of
        (st', Completed) \<Rightarrow> st'\<lparr>roi_update_in_progress := False\<rparr>
      | (st', Raised) \<Rightarrow> st'\<lparr>roi_update_in_progress := False\<rparr>)"

text \<open>
  A ROI edit event is one call of either handler, together with the places at which
  the environment raises during that call.
\<close>

datatype roi_event =
    RoiChanged "site \<Rightarrow> bool" "rect option" orientation
  | RoiChangedImmediate "site \<Rightarrow> bool" rect orientation

fun handle_event :: "main_window_functions \<Rightarrow> roi_event \<Rightarrow> main_window_functions" where
  "handle_event st (RoiChanged raises r v) = on_roi_changed raises st r v"
| "handle_event st (RoiChangedImmediate raises r v) = on_roi_changed_immediate raises st r v"

fun handle_events :: "main_window_functions \<Rightarrow> roi_event list \<Rightarrow> main_window_functions" where
  "handle_events st [] = st"
| "handle_events st (e # es) = handle_events (handle_event st e) es"

text \<open>
  get\_roi\_mask (lines 602-623). image\_array.shape is (depth, height, width). The mask is
  a boolean array of that shape, here its shape and its value at each index. A Python
  slice bound that is negative counts from the end, and one beyond the axis is cut to
  its length.
\<close>

record mask =
  mask_shape :: "nat \<times> nat \<times> nat"
  mask_at :: "nat \<Rightarrow> nat \<Rightarrow> nat \<Rightarrow> bool"

definition slice_bound :: "nat \<Rightarrow> int \<Rightarrow> int" where
  "slice_bound n b = (if b < 0 then max 0 (b + int n) else min b (int n))"

definition in_slice :: "nat \<Rightarrow> int \<Rightarrow> int \<Rightarrow> nat \<Rightarrow> bool" where
  "in_slice n start stop i =
     (i < n \<and> slice_bound n start \<le> int i \<and> int i < slice_bound n stop)"

definition get_roi_mask :: "main_window_functions \<Rightarrow> nat \<times> nat \<times> nat \<Rightarrow> mask option" where
  "get_roi_mask st shape =
     (case roi_rect_3d st of
        None \<Rightarrow> None
      | Some roi \<Rightarrow>
          (case shape of (shape0, shape1, shape2) \<Rightarrow>
             let x_min' = max 0 (x_min roi);
                 x_max' = min (int shape2) (x_max roi);
                 y_min' = max 0 (y_min roi);
                 y_max' = min (int shape1) (y_max roi);
                 z_min' = max 0 (z_min roi);
                 z_max' = min (int shape0) (z_max roi)
             in Some \<lparr>mask_shape = shape,
                       mask_at = (\<lambda>z y x. in_slice shape0 z_min' z_max' z
                                          \<and> in_slice shape1 y_min' y_max' y
                                          \<and> in_slice shape2 x_min' x_max' x)\<rparr>))"


section \<open>Volumes and meshes\<close>

text \<open>
  A numpy volume is its shape (axis 0, axis 1, axis 2, that is depth, height, width)
  and its value at each index inside the shape. Voxel values are float32 in the
  source and real numbers here; ravel lists them in storage order, for the reductions
  (min, max, mean, count\_nonzero) that do not look at positions.
\<close>

record volume =
  shape :: "nat \<times> nat \<times> nat"
  voxel :: "nat \<Rightarrow> nat \<Rightarrow> nat \<Rightarrow> real"

definition ravel :: "volume \<Rightarrow> real list" where
  "ravel vol =
     (case shape vol of (d, h, w) \<Rightarrow>
        concat (map (\<lambda>z. concat (map (\<lambda>y. map (\<lambda>x. voxel vol z y x) [0..<w]) [0..<h])) [0..<d]))"

type_synonym vertex = "real \<times> real \<times> real"

record mesh =
  mesh_vertices :: "vertex list"
  mesh_faces :: "(nat \<times> nat \<times> nat) list"

definition np_clip :: "real \<Rightarrow> real \<Rightarrow> real \<Rightarrow> real" where
  "np_clip a lo hi = min (max a lo) hi"

definition np_mean :: "real list \<Rightarrow> real" where
  "np_mean xs = sum_list xs / real (length xs)"

definition np_std :: "real list \<Rightarrow> real" where
  "np_std xs = sqrt (np_mean (map (\<lambda>x. (x - np_mean xs)\<^sup>2) xs))"

definition np_median :: "real list \<Rightarrow> real" where
  "np_median xs =
     (let s = sort xs; n = length s
      in if n mod 2 = 1 then s ! (n div 2)
         else (s ! (n div 2 - 1) + s ! (n div 2)) / 2)"

text \<open>np.percentile with the default linear interpolation, on a non-empty list.\<close>

definition np_percentile :: "real list \<Rightarrow> real \<Rightarrow> real" where
  "np_percentile xs q =
     (let s = sort xs; n = length s;
          pos = q / 100 * real (n - 1);
          lo = nat \<lfloor>pos\<rfloor>;
          hi = min (lo + 1) (n - 1)
      in s ! lo + (pos - real lo) * (s ! hi - s ! lo))"

definition np_linspace :: "real \<Rightarrow> real \<Rightarrow> nat \<Rightarrow> real list" where
  "np_linspace a b n =
     (if n = 1 then [a]
      else map (\<lambda>i. a + real i * ((b - a) / real (n - 1))) [0..<n])"

section \<open>Density-coloured surface (enhanced\_mayavi\_widget.py)\<close>

text \<open>
  Indexing one axis of length n with a Python integer: negative indices count from the
  end, anything else outside the axis raises IndexError (None).
\<close>

definition np_index :: "nat \<Rightarrow> int \<Rightarrow> nat option" where
  "np_index n i =
     (if 0 \<le> i \<and> i < int n then Some (nat i)
      else if - int n \<le> i \<and> i < 0 then Some (nat (i + int n))
      else None)"

definition getitem :: "volume \<Rightarrow> int \<Rightarrow> int \<Rightarrow> int \<Rightarrow> real option" where
  "getitem vol zi yi xi =
     (case shape vol of (d, h, w) \<Rightarrow>
        do { z \<leftarrow> np_index d zi; y \<leftarrow> np_index h yi; x \<leftarrow> np_index w xi;
             Some (voxel vol z y x) })"

text \<open>max(0, min(i, n - 1)) of lines 128-133.\<close>

definition clamp_index :: "nat \<Rightarrow> int \<Rightarrow> int" where
  "clamp_index n i = max 0 (min i (int n - 1))"

text \<open>The weight of lines 136-149: zero when the two lattice bounds coincide.\<close>

definition interp_weight :: "real \<Rightarrow> int \<Rightarrow> int \<Rightarrow> real" where
  "interp_weight c c0 c1 =
     (if c1 \<noteq> c0 then (c - real_of_int c0) / real_of_int (c1 - c0) else 0)"

text \<open>
  Lines 118-133 for one axis of length n: the coordinate clipped to [0, n - 1], and the
  lattice indices below and above it, each kept inside the axis.
\<close>

definition lattice_bounds :: "nat \<Rightarrow> real \<Rightarrow> real \<times> int \<times> int" where
  "lattice_bounds n c =
     (let c' = np_clip c 0 (real_of_int (int n - 1))
      in (c', clamp_index n \<lfloor>c'\<rfloor>, clamp_index n \<lceil>c'\<rceil>))"

text \<open>Lines 162-170: the interpolation of the eight corner values.\<close>

definition trilinear ::
  "real \<Rightarrow> real \<Rightarrow> real \<Rightarrow> real \<Rightarrow> real \<Rightarrow> real \<Rightarrow> real \<Rightarrow> real
     \<Rightarrow> real \<Rightarrow> real \<Rightarrow> real \<Rightarrow> real" where
  "trilinear c000 c001 c010 c011 c100 c101 c110 c111 wx wy wz =
     (let c00 = c000 * (1 - wx) + c001 * wx;
          c01 = c010 * (1 - wx) + c011 * wx;
          c10 = c100 * (1 - wx) + c101 * wx;
          c11 = c110 * (1 - wx) + c111 * wx;
          c0 = c00 * (1 - wy) + c01 * wy;
          c1 = c10 * (1 - wy) + c11 * wy
      in c0 * (1 - wz) + c1 * wz)"

text \<open>
  The body of the loop of interpolate\_density\_at\_vertices (lines 113-171) for one
  vertex (z, y, x); None when an index raises.
\<close>

definition interpolate_vertex :: "volume \<Rightarrow> vertex \<Rightarrow> real option" where
  "interpolate_vertex vol v =
     (case shape vol of (d, h, w) \<Rightarrow>
      case v of (vz, vy, vx) \<Rightarrow>
      case lattice_bounds d vz of (z, z0, z1) \<Rightarrow>
      case lattice_bounds h vy of (y, y0, y1) \<Rightarrow>
      case lattice_bounds w vx of (x, x0, x1) \<Rightarrow>
        do {
          c000 \<leftarrow> getitem vol z0 y0 x0;
          c001 \<leftarrow> getitem vol z0 y0 x1;
          c010 \<leftarrow> getitem vol z0 y1 x0;
          c011 \<leftarrow> getitem vol z0 y1 x1;
          c100 \<leftarrow> getitem vol z1 y0 x0;
          c101 \<leftarrow> getitem vol z1 y0 x1;
          c110 \<leftarrow> getitem vol z1 y1 x0;
          c111 \<leftarrow> getitem vol z1 y1 x1;
          Some (trilinear c000 c001 c010 c011 c100 c101 c110 c111
                  (interp_weight x x0 x1) (interp_weight y y0 y1) (interp_weight z z0 z1))
        })"

text \<open>
  interpolate\_density\_at\_vertices (lines 108-179). An entry of the result is None for
  NaN. If any vertex raises, or the final log line takes the minimum of an empty
  array, the except clause returns the mean of the data for every vertex; the mean of
  an empty volume is NaN.
\<close>

definition interpolate_density_at_vertices :: "volume \<Rightarrow> vertex list \<Rightarrow> real option list" where
  "interpolate_density_at_vertices vol vs =
     (let fallback = replicate (length vs)
                       (if ravel vol = [] then None else Some (np_mean (ravel vol)))
      in case those (map (interpolate_vertex vol) vs) of
           None \<Rightarrow> fallback
         | Some ds \<Rightarrow> if ds = [] then fallback else map Some ds)"

text \<open>
  Lines 60-80 of create\_density\_colored\_surface: the level handed to marching cubes.
  The statistics of an empty volume raise (None). The clamp to the middle of the value
  range is inside the branch for a missing iso\_level.
\<close>

definition create_density_colored_surface_iso_level :: "volume \<Rightarrow> real option \<Rightarrow> real option" where
  "create_density_colored_surface_iso_level vol iso_level =
     (if ravel vol = [] then None
      else
        let data_min = Min (set (ravel vol));
            data_max = Max (set (ravel vol));
            data_mean = np_mean (ravel vol);
            data_std = np_std (ravel vol)
        in case iso_level of
             None \<Rightarrow>
               let l = (if data_max > 1000 then 200 else data_mean + 0.5 * data_std)
               in Some (max (data_min + (data_max - data_min) * 0.1)
                            (min l (data_max - (data_max - data_min) * 0.1)))
           | Some l \<Rightarrow> Some l)"

text \<open>
  create\_density\_colored\_surface (lines 54-106) up to the colouring. skimage's
  marching cubes is a parameter (None when it raises); the record keeps the level it
  was called with and, when a mesh came back, the mesh and its vertex densities.
\<close>

record surface_build =
  marching_cubes_level :: "real option"
  built :: "(mesh \<times> real option list) option"

definition create_density_colored_surface ::
  "(volume \<Rightarrow> real \<Rightarrow> mesh option) \<Rightarrow> volume \<Rightarrow> real option \<Rightarrow> surface_build" where
  "create_density_colored_surface marching_cubes vol iso_level =
     (case create_density_colored_surface_iso_level vol iso_level of
        None \<Rightarrow> \<lparr>marching_cubes_level = None, built = None\<rparr>
      | Some l \<Rightarrow>
          \<lparr>marching_cubes_level = Some l,
           built = map_option
                     (\<lambda>m. (m, interpolate_density_at_vertices vol (mesh_vertices m)))
                     (marching_cubes vol l)\<rparr>)"

definition update_iso_level ::
  "(volume \<Rightarrow> real \<Rightarrow> mesh option) \<Rightarrow> volume \<Rightarrow> real \<Rightarrow> surface_build" where
  "update_iso_level marching_cubes vol new_iso_level =
     create_density_colored_surface marching_cubes vol (Some new_iso_level)"

section \<open>Surface build and density mapping (mayavi\_widget.py)\<close>

text \<open>
  sample\_density\_at\_vertices\_for\_surface (lines 371-512). scipy's map\_coordinates is a
  parameter: it is given the volume and the clamped coordinates and returns the
  resampled values, or raises (None). The result None is Python's None, returned when
  a tissue branch is entered and its fraction test fails. The logging of line 417
  takes the minimum of the raw values and raises on an empty array; every exception
  ends in the linear gradient of the except clause.
\<close>

definition fallback_density :: "real \<Rightarrow> nat \<Rightarrow> real list" where
  "fallback_density iso_level n =
     (if iso_level > 100 then np_linspace 200 1000 n
      else if iso_level > 0 then np_linspace 0 200 n
      else np_linspace (-500) 0 n)"

text \<open>
  Lines 390-399: the coordinate array handed to map\_coordinates. Column 2 of the
  vertices is used as the coordinate of axis 0 and column 0 as that of axis 2, each
  clipped to its axis.
\<close>

definition clamped_coords :: "volume \<Rightarrow> vertex list \<Rightarrow> vertex list" where
  "clamped_coords data_to_sample vs =
     (case shape data_to_sample of (max_z, max_y, max_x) \<Rightarrow>
        map (\<lambda>(v0, v1, v2).
               (np_clip v2 0 (real_of_int (int max_z - 1)),
                np_clip v1 0 (real_of_int (int max_y - 1)),
                np_clip v0 0 (real_of_int (int max_x - 1)))) vs)"

definition sample_density_at_vertices_for_surface ::
  "(volume \<Rightarrow> vertex list \<Rightarrow> real list option) \<Rightarrow> volume option \<Rightarrow> volume
     \<Rightarrow> vertex list \<Rightarrow> real \<Rightarrow> real list option" where
  "sample_density_at_vertices_for_surface map_coordinates original_data vol vs iso_level =
     (let data_to_sample = (case original_data of Some od \<Rightarrow> od | None \<Rightarrow> vol);
          coords = clamped_coords data_to_sample vs
      in (case map_coordinates data_to_sample coords of
             None \<Rightarrow> Some (fallback_density iso_level (length vs))
           | Some raw_density_values \<Rightarrow>
               if raw_density_values = [] then Some (fallback_density iso_level (length vs))
               else if original_data \<noteq> None \<and> iso_level > 100 then
                 let bone_densities = filter (\<lambda>v. v > 150) raw_density_values
                 in if real (length bone_densities) > real (length raw_density_values) * 0.3
                    then
                      let min_bone = Min (set bone_densities)
                      in Some (map (\<lambda>v. if v > 150 then v else min_bone) raw_density_values)
                    else None
               else if original_data \<noteq> None \<and> 0 < iso_level \<and> iso_level \<le> 100 then
                 let soft = filter (\<lambda>v. - 100 \<le> v \<and> v \<le> 300) raw_density_values
                 in if real (length soft) > real (length raw_density_values) * 0.5
                    then Some (map (\<lambda>v. np_clip v (- 100) 300) raw_density_values)
                    else None
               else if original_data \<noteq> None \<and> iso_level \<le> 0 then
                 Some (map (\<lambda>v. np_clip v (- 1000) 100) raw_density_values)
               else
                 let q10 = np_percentile raw_density_values 10;
                     q90 = np_percentile raw_density_values 90;
                     range_size = q90 - q10;
                     center = (q10 + q90) / 2;
                     q10' = (if range_size < 50 then center - 25 else q10);
                     q90' = (if range_size < 50 then center + 25 else q90)
                 in Some (map (\<lambda>v. np_clip v q10' q90') raw_density_values)))"

text \<open>
  The state of Visualization that update\_scene touches. The scene holds what is drawn;
  marching\_cubes\_calls lists the levels marching cubes has been called with (it is not
  a field of the source, it records the calls to the library).
\<close>

datatype scene_object = SurfaceMesh mesh "real list" | VolumeRendering

record visualization =
  data :: volume
  original_data :: "volume option"
  scene :: "scene_object list"
  mesh_data :: "mesh option"
  current_iso_level :: "real option"
  marching_cubes_calls :: "real list"

text \<open>
  How a call of update\_scene ended. The source reports the first two cases by
  returning early (the second one after logging that the data has no variation);
  DegenerateRangeError is the name the specification gives to that case.
\<close>

datatype build_result = EmptyField | DegenerateRangeError | SurfaceBuilt | VolumeFallback

text \<open>
  update\_scene (lines 225-369). The arithmetic on voxel values is float32 in the
  source and exact here; for large values the source's clamp data\_max - 0.001 rounds
  back to data\_max. The path of a field without variation returns before any of it.
\<close>

definition update_scene ::
  "(volume \<Rightarrow> real \<Rightarrow> mesh option)
     \<Rightarrow> (volume \<Rightarrow> vertex list \<Rightarrow> real list option)
     \<Rightarrow> visualization \<Rightarrow> visualization \<times> build_result" where
  "update_scene marching_cubes map_coordinates vis =
     (let vis1 = vis\<lparr>scene := []\<rparr>;
          xs = ravel (data vis)
      in if xs = [] then (vis1, EmptyField)
         else
           let data_min = Min (set xs);
               data_max = Max (set xs)
           in if data_max \<le> data_min then (vis1, DegenerateRangeError)
              else
                let non_zero_count = length (filter (\<lambda>v. v \<noteq> 0) xs);
                    total_count = length xs;
                    zero_percentage =
                      real (total_count - non_zero_count) / real total_count * 100;
                    iso0 = (if zero_percentage > 50
                            then data_min + (data_max - data_min) * 0.01
                            else np_median (filter (\<lambda>v. v > data_min) xs));
                    iso_level = max (data_min + 0.001) (min iso0 (data_max - 0.001));
                    vis2 = vis1\<lparr>current_iso_level := Some iso_level,
                                marching_cubes_calls := marching_cubes_calls vis1 @ [iso_level]\<rparr>
                in case marching_cubes (data vis) iso_level of
                     None \<Rightarrow> (vis2\<lparr>scene := [VolumeRendering]\<rparr>, VolumeFallback)
                   | Some m \<Rightarrow>
                       let vis3 = vis2\<lparr>mesh_data := Some m\<rparr>
                       in (case sample_density_at_vertices_for_surface map_coordinates
                                 (original_data vis) (data vis) (mesh_vertices m) iso_level of
                            None \<Rightarrow> (vis3\<lparr>scene := [VolumeRendering]\<rparr>, VolumeFallback)
                          | Some density_values \<Rightarrow>
                              if density_values = []
                              then (vis3\<lparr>scene := [VolumeRendering]\<rparr>, VolumeFallback)
                              else (vis3\<lparr>scene := [SurfaceMesh m density_values]\<rparr>,
                                    SurfaceBuilt)))"

text \<open>
  build\_3d\_view (lines 760-960), for the arrays left after masking and downsampling:
  the validity check (lines 831-842), the hand-over to the widget (lines 855-942) and
  the handler at the end (lines 956-960).

  The handler logs the exception, calls traceback.print\_exc() and then shows a message
  box. The statement "import traceback" at line 887, inside the handler of a failed
  widget creation, makes traceback a local name of the whole function. It is bound
  only once that statement has run; in every other call the handler's use of it
  raises UnboundLocalError, which leaves build\_3d\_view, a slot of the Build 3D
  button, before the message box is shown.

  The widget either takes the data (created, or already there and updated), or its
  creation fails and the fallback creation succeeds (the data is set a little later),
  or both creations fail and the exception is raised again. An update of an existing
  widget that raises schedules a new call of build\_3d\_view and returns; that second
  call is a run of this same function and is not followed here.
\<close>

datatype build_error = EmptyArray | AllDataRemoved | NoVariation | WidgetCreationFailed

datatype py_exception = UnboundLocalError

datatype widget_path = WidgetReady | WidgetFallback | WidgetFails

datatype build_3d_outcome =
    Escaped py_exception
  | MessageBox build_error
  | Updated visualization build_result

definition build_3d_view_handler :: "bool \<Rightarrow> build_error \<Rightarrow> build_3d_outcome" where
  "build_3d_view_handler traceback_bound e =
     (if traceback_bound then MessageBox e else Escaped UnboundLocalError)"

definition build_3d_view ::
  "(volume \<Rightarrow> real \<Rightarrow> mesh option)
     \<Rightarrow> (volume \<Rightarrow> vertex list \<Rightarrow> real list option)
     \<Rightarrow> widget_path \<Rightarrow> bool \<Rightarrow> volume \<Rightarrow> volume \<Rightarrow> visualization
     \<Rightarrow> build_3d_outcome" where
  "build_3d_view marching_cubes map_coordinates widget any_processing_applied
       downsampled_array downsampled_original vis =
     (let xs = ravel downsampled_array
      in if xs = [] then build_3d_view_handler False EmptyArray
         else if any_processing_applied \<and> length (filter (\<lambda>v. v \<noteq> 0) xs) = 0
         then build_3d_view_handler False AllDataRemoved
         else if \<not> any_processing_applied \<and> Max (set xs) \<le> Min (set xs)
         then build_3d_view_handler False NoVariation
         else
           (case widget of
              WidgetFails \<Rightarrow> build_3d_view_handler True WidgetCreationFailed
            | _ \<Rightarrow>
                (case update_scene marching_cubes map_coordinates
                        (vis\<lparr>data := downsampled_array,
                             original_data := Some downsampled_original\<rparr>) of
                   (vis', res) \<Rightarrow> Updated vis' res)))"


section \<open>Vocabulary of the properties\<close>

text \<open>
  The table of the three orientations: the two volume axes a view shows (with the
  volume dimension of each), and the axis it hides, with that axis's dimension and the
  scrollbar that holds its current slice index.
\<close>

definition visible_pairs :: "orientation \<Rightarrow> roi3d \<Rightarrow> (int \<times> int) \<times> (int \<times> int)" where
  "visible_pairs v roi =
     (case v of
        Axial \<Rightarrow> ((x_min roi, x_max roi), (y_min roi, y_max roi))
      | Coronal \<Rightarrow> ((x_min roi, x_max roi), (z_min roi, z_max roi))
      | Sagittal \<Rightarrow> ((y_min roi, y_max roi), (z_min roi, z_max roi)))"

definition hidden_pair :: "orientation \<Rightarrow> roi3d \<Rightarrow> int \<times> int" where
  "hidden_pair v roi =
     (case v of
        Axial \<Rightarrow> (z_min roi, z_max roi)
      | Coronal \<Rightarrow> (y_min roi, y_max roi)
      | Sagittal \<Rightarrow> (x_min roi, x_max roi))"

definition view_dims :: "image_size \<Rightarrow> orientation \<Rightarrow> int \<times> int" where
  "view_dims sz v =
     (case v of
        Axial \<Rightarrow> (size0 sz, size1 sz)
      | Coronal \<Rightarrow> (size0 sz, size2 sz)
      | Sagittal \<Rightarrow> (size1 sz, size2 sz))"



text \<open>
  A side of the rectangle, from lo to lo + len in display units, scaled by
  volume\_dim / 400 with exact products, the lower end cut at 0 and the upper end at
  n: the indices of the model (see the remark on float64 above). It is used in the
  proofs only.
\<close>

definition scaled_pair :: "int \<Rightarrow> real \<Rightarrow> real \<Rightarrow> int \<times> int" where
  "scaled_pair n lo len =
     (max 0 (py_int (lo * (real_of_int n / 400))),
      min n (py_int ((lo + len) * (real_of_int n / 400))))"




text \<open>
  The bounds the code gives the hidden axis of a new ROI, for the dimension n of that
  axis and its current slice index c (lines 411-414, 430-433, 449-452).
\<close>

definition hidden_band :: "int \<Rightarrow> int \<Rightarrow> int \<times> int" where
  "hidden_band n c =
     (max 0 (c - max 1 (n div 10) div 2), min n (c + max 1 (n div 10) div 2))"


text \<open>What the code gives: a band around c, at most t thick.\<close>

definition band_around :: "int \<Rightarrow> int \<Rightarrow> int \<times> int \<Rightarrow> bool" where
  "band_around c t b = (fst b \<le> c \<and> c \<le> snd b \<and> snd b - fst b \<le> t)"





definition rect_inside_display :: "rect \<Rightarrow> bool" where
  "rect_inside_display r =
     (0 \<le> rect_x r \<and> 0 \<le> rect_width r \<and> rect_x r + rect_width r \<le> 400
      \<and> 0 \<le> rect_y r \<and> 0 \<le> rect_height r \<and> rect_y r + rect_height r \<le> 400)"


text \<open>
  The rectangle a view would be given after an edit from that same view: the edit
  stored, then the projection of propagate\_roi\_to\_single\_view, before its size test.
\<close>

definition edit_then_project :: "main_window_functions \<Rightarrow> rect \<Rightarrow> orientation \<Rightarrow> rect option" where
  "edit_then_project st r v =
     (case image st of
        None \<Rightarrow> None
      | Some sz \<Rightarrow>
          (case convert_roi_to_3d_preserving_dimensions st r v of
             None \<Rightarrow> None
           | Some roi \<Rightarrow> project_roi sz roi v))"

definition edit_then_propagate ::
  "main_window_functions \<Rightarrow> rect \<Rightarrow> orientation \<Rightarrow> main_window_functions" where
  "edit_then_propagate st r v =
     propagate_roi_to_single_view
       (st\<lparr>roi_rect_3d := convert_roi_to_3d_preserving_dimensions st r v\<rparr>) v"

text \<open>
  Equal up to the rounding of the index scale: each edge of the recovered rectangle
  lies less than two voxels (a voxel is 400 / dimension display units) from the drawn
  edge. Truncation to an index moves an edge by less than one voxel; the second voxel
  is the room for the float64 rounding of the products, which can move an index by one.
\<close>

definition edge_near :: "int \<Rightarrow> real \<Rightarrow> real \<Rightarrow> bool" where
  "edge_near n e e' = (\<bar>e' - e\<bar> < 2 * (400 / real_of_int n))"

definition within_rounding :: "int \<times> int \<Rightarrow> rect \<Rightarrow> rect \<Rightarrow> bool" where
  "within_rounding dims r r' =
     (edge_near (fst dims) (rect_x r) (rect_x r')
      \<and> edge_near (fst dims) (rect_x r + rect_width r) (rect_x r' + rect_width r')
      \<and> edge_near (snd dims) (rect_y r) (rect_y r')
      \<and> edge_near (snd dims) (rect_y r + rect_height r) (rect_y r' + rect_height r'))"

text \<open>The half-open box of a ROI, as a test on one voxel index (z, y, x).\<close>

definition in_half_open_box :: "roi3d \<Rightarrow> nat \<Rightarrow> nat \<Rightarrow> nat \<Rightarrow> bool" where
  "in_half_open_box roi z y x =
     (z_min roi \<le> int z \<and> int z < z_max roi
      \<and> y_min roi \<le> int y \<and> int y < y_max roi
      \<and> x_min roi \<le> int x \<and> int x < x_max roi)"

definition mask_value :: "mask option \<Rightarrow> nat \<Rightarrow> nat \<Rightarrow> nat \<Rightarrow> bool" where
  "mask_value m z y x = (case m of None \<Rightarrow> False | Some mk \<Rightarrow> mask_at mk z y x)"

text \<open>The middle 80 percent of the value range of a volume.\<close>

definition in_middle_80 :: "volume \<Rightarrow> real \<Rightarrow> bool" where
  "in_middle_80 vol l =
     (let lo = Min (set (ravel vol)); hi = Max (set (ravel vol))
      in lo + 0.1 * (hi - lo) \<le> l \<and> l \<le> hi - 0.1 * (hi - lo))"

section \<open>Sample inputs\<close>

definition sample_state :: "int \<Rightarrow> int \<Rightarrow> int \<Rightarrow> int \<Rightarrow> main_window_functions" where
  "sample_state w h d idx =
     \<lparr>image = Some \<lparr>size0 = w, size1 = h, size2 = d\<rparr>,
      roi_rect_3d = None,
      roi_update_in_progress = False,
      axial_scrollbar = idx, coronal_scrollbar = idx, sagittal_scrollbar = idx,
      view_roi = (\<lambda>v. None)\<rparr>"

definition sample_rect :: "real \<Rightarrow> real \<Rightarrow> real \<Rightarrow> real \<Rightarrow> rect" where
  "sample_rect x y w h = \<lparr>rect_x = x, rect_y = y, rect_width = w, rect_height = h\<rparr>"

text \<open>
  Two ROIs that the conversion produces from rectangles outside the display: one from
  a rectangle above a coronal slice of a 400 x 400 x 300 volume, whose upper z bound is
  negative, and one from a rectangle right of an axial slice of a 512 x 512 x 300
  volume, whose lower x bound is above the upper one.
\<close>

definition wrapped_roi :: roi3d where
  "wrapped_roi = \<lparr>x_min = 50, x_max = 150, y_min = 130, y_max = 170, z_min = 0, z_max = - 17,
                  source_orientation = Coronal\<rparr>"

definition crossed_roi :: roi3d where
  "crossed_roi = \<lparr>x_min = 640, x_max = 512, y_min = 64, y_max = 76, z_min = 135, z_max = 165,
                  source_orientation = Axial\<rparr>"

definition sample_roi :: roi3d where
  "sample_roi = \<lparr>x_min = 10, x_max = 20, y_min = 30, y_max = 40, z_min = 5, z_max = 9,
                 source_orientation = Coronal\<rparr>"

text \<open>A volume of one row of voxels holding the given values.\<close>

definition row_volume :: "real list \<Rightarrow> volume" where
  "row_volume xs = \<lparr>shape = (1, 1, length xs), voxel = (\<lambda>z y x. xs ! x)\<rparr>"

text \<open>Stand-ins for the two libraries: a sampler that returns fixed values, and a
  marching cubes that finds no surface.\<close>

definition fixed_sampler :: "real list \<Rightarrow> volume \<Rightarrow> vertex list \<Rightarrow> real list option" where
  "fixed_sampler raw vol cs = Some raw"

definition no_surface :: "volume \<Rightarrow> real \<Rightarrow> mesh option" where
  "no_surface vol l = None"

definition sample_visualization :: "real list \<Rightarrow> visualization" where
  "sample_visualization xs =
     \<lparr>data = row_volume xs, original_data = Some (row_volume xs),
      scene = [VolumeRendering], mesh_data = None, current_iso_level = None,
      marching_cubes_calls = []\<rparr>"


section \<open>Converting a 2D edit into the 3D ROI\<close>

lemma py_int_nonneg: "0 \<le> r \<Longrightarrow> py_int r = \<lfloor>r\<rfloor>"
  by (simp add: py_int_def)

text \<open>The result of the conversion when a ROI exists: an update of the old one.\<close>

lemma convert_prior:
  assumes "image st = Some sz" and "roi_rect_3d st = Some old"
  shows "convert_roi_to_3d_preserving_dimensions st r v =
     Some (case v of
        Axial \<Rightarrow> old\<lparr>x_min := fst (scaled_pair (size0 sz) (rect_x r) (rect_width r)),
                      x_max := snd (scaled_pair (size0 sz) (rect_x r) (rect_width r)),
                      y_min := fst (scaled_pair (size1 sz) (rect_y r) (rect_height r)),
                      y_max := snd (scaled_pair (size1 sz) (rect_y r) (rect_height r)),
                      source_orientation := Axial\<rparr>
      | Coronal \<Rightarrow> old\<lparr>x_min := fst (scaled_pair (size0 sz) (rect_x r) (rect_width r)),
                      x_max := snd (scaled_pair (size0 sz) (rect_x r) (rect_width r)),
                      z_min := fst (scaled_pair (size2 sz) (rect_y r) (rect_height r)),
                      z_max := snd (scaled_pair (size2 sz) (rect_y r) (rect_height r)),
                      source_orientation := Coronal\<rparr>
      | Sagittal \<Rightarrow> old\<lparr>y_min := fst (scaled_pair (size1 sz) (rect_x r) (rect_width r)),
                      y_max := snd (scaled_pair (size1 sz) (rect_x r) (rect_width r)),
                      z_min := fst (scaled_pair (size2 sz) (rect_y r) (rect_height r)),
                      z_max := snd (scaled_pair (size2 sz) (rect_y r) (rect_height r)),
                      source_orientation := Sagittal\<rparr>)"
  using assms
  by (cases v)
     (simp_all add: convert_roi_to_3d_preserving_dimensions_def scaled_pair_def
        display_width_def display_height_def Let_def)

text \<open>The result of the conversion when there is no ROI yet.\<close>

lemma convert_new:
  assumes "image st = Some sz" and "roi_rect_3d st = None"
  shows "convert_roi_to_3d_preserving_dimensions st r v =
     Some (case v of
        Axial \<Rightarrow> \<lparr>x_min = fst (scaled_pair (size0 sz) (rect_x r) (rect_width r)),
                   x_max = snd (scaled_pair (size0 sz) (rect_x r) (rect_width r)),
                   y_min = fst (scaled_pair (size1 sz) (rect_y r) (rect_height r)),
                   y_max = snd (scaled_pair (size1 sz) (rect_y r) (rect_height r)),
                   z_min = fst (hidden_band (size2 sz) (axial_scrollbar st)),
                   z_max = snd (hidden_band (size2 sz) (axial_scrollbar st)),
                   source_orientation = Axial\<rparr>
      | Coronal \<Rightarrow> \<lparr>x_min = fst (scaled_pair (size0 sz) (rect_x r) (rect_width r)),
                   x_max = snd (scaled_pair (size0 sz) (rect_x r) (rect_width r)),
                   y_min = fst (hidden_band (size1 sz) (coronal_scrollbar st)),
                   y_max = snd (hidden_band (size1 sz) (coronal_scrollbar st)),
                   z_min = fst (scaled_pair (size2 sz) (rect_y r) (rect_height r)),
                   z_max = snd (scaled_pair (size2 sz) (rect_y r) (rect_height r)),
                   source_orientation = Coronal\<rparr>
      | Sagittal \<Rightarrow> \<lparr>x_min = fst (hidden_band (size0 sz) (sagittal_scrollbar st)),
                   x_max = snd (hidden_band (size0 sz) (sagittal_scrollbar st)),
                   y_min = fst (scaled_pair (size1 sz) (rect_x r) (rect_width r)),
                   y_max = snd (scaled_pair (size1 sz) (rect_x r) (rect_width r)),
                   z_min = fst (scaled_pair (size2 sz) (rect_y r) (rect_height r)),
                   z_max = snd (scaled_pair (size2 sz) (rect_y r) (rect_height r)),
                   source_orientation = Sagittal\<rparr>)"
  using assms
  by (cases v)
     (simp_all add: convert_roi_to_3d_preserving_dimensions_def scaled_pair_def hidden_band_def
        display_width_def display_height_def Let_def)


lemma hidden_band_around:
  "0 \<le> c \<Longrightarrow> c < n \<Longrightarrow> band_around c (max 1 (n div 10)) (hidden_band n c)"
  by (auto simp: hidden_band_def band_around_def max_def min_def split: if_splits)


lemma scaled_pair_floor:
  assumes "0 \<le> n" and "0 \<le> lo" and "0 \<le> len"
  shows "scaled_pair n lo len =
           (max 0 \<lfloor>lo * (real_of_int n / 400)\<rfloor>, min n \<lfloor>(lo + len) * (real_of_int n / 400)\<rfloor>)"
proof -
  have "0 \<le> lo * (real_of_int n / 400)" and "0 \<le> (lo + len) * (real_of_int n / 400)"
    using assms by simp_all
  then show ?thesis by (simp add: scaled_pair_def py_int_nonneg)
qed


lemma scaled_pair_exact:
  assumes "0 < n" and "0 \<le> lo" and "0 \<le> len" and "lo + len \<le> 400"
  shows "scaled_pair n lo len =
           (\<lfloor>lo * (real_of_int n / 400)\<rfloor>, \<lfloor>(lo + len) * (real_of_int n / 400)\<rfloor>)"
proof -
  let ?s = "real_of_int n / 400"
  have s: "0 \<le> ?s" using assms by simp
  have a: "0 \<le> lo * ?s" using assms s by simp
  have "(lo + len) * ?s \<le> 400 * ?s" using assms(4) s by (rule mult_right_mono)
  then have c: "(lo + len) * ?s \<le> real_of_int n" by simp
  have f0: "0 \<le> \<lfloor>lo * ?s\<rfloor>" using a by simp
  have fn: "\<lfloor>(lo + len) * ?s\<rfloor> \<le> n" using c by (simp add: floor_le_iff)
  have n0: "0 \<le> n" using assms by simp
  show ?thesis unfolding scaled_pair_floor[OF n0 assms(2,3)] using f0 fn by simp
qed



text \<open>
  C3. When a 3D ROI exists, an edit from a view leaves the pair of the hidden axis
  (Z for axial, Y for coronal, X for sagittal) as it was in the existing ROI, and
  overwrites the two pairs that the view shows: their new values are those the same
  edit gives with any other existing ROI, or with none, so nothing of their old
  values remains. The ROI records the editing view as its source.
\<close>

theorem prior_roi_hidden_pair_preserved:
  assumes "image st = Some sz" and "roi_rect_3d st = Some old"
  shows "map_option (hidden_pair v) (convert_roi_to_3d_preserving_dimensions st r v)
           = Some (hidden_pair v old)
       \<and> map_option (visible_pairs v) (convert_roi_to_3d_preserving_dimensions st r v)
           = map_option (visible_pairs v)
               (convert_roi_to_3d_preserving_dimensions (st\<lparr>roi_rect_3d := other\<rparr>) r v)
       \<and> map_option source_orientation (convert_roi_to_3d_preserving_dimensions st r v)
           = Some v"
proof -
  have img: "image (st\<lparr>roi_rect_3d := p\<rparr>) = Some sz" for p
    using assms(1) by simp
  have vis: "map_option (visible_pairs v) (convert_roi_to_3d_preserving_dimensions st r v)
           = Some (scaled_pair (fst (view_dims sz v)) (rect_x r) (rect_width r),
                   scaled_pair (snd (view_dims sz v)) (rect_y r) (rect_height r))"
    by (cases v) (simp_all add: convert_prior[OF assms] visible_pairs_def view_dims_def)
  have oth: "map_option (visible_pairs v)
               (convert_roi_to_3d_preserving_dimensions (st\<lparr>roi_rect_3d := other\<rparr>) r v)
           = Some (scaled_pair (fst (view_dims sz v)) (rect_x r) (rect_width r),
                   scaled_pair (snd (view_dims sz v)) (rect_y r) (rect_height r))"
  proof (cases other)
    case None
    have rn: "roi_rect_3d (st\<lparr>roi_rect_3d := None\<rparr>) = None" by simp
    show ?thesis
      unfolding None
      by (cases v) (simp_all add: convert_new[OF img rn] visible_pairs_def view_dims_def)
  next
    case (Some o2)
    have rs: "roi_rect_3d (st\<lparr>roi_rect_3d := Some o2\<rparr>) = Some o2" by simp
    show ?thesis
      unfolding Some
      by (cases v) (simp_all add: convert_prior[OF img rs] visible_pairs_def view_dims_def)
  qed
  have hid: "map_option (hidden_pair v) (convert_roi_to_3d_preserving_dimensions st r v)
           = Some (hidden_pair v old)"
    by (cases v) (simp_all add: convert_prior[OF assms] hidden_pair_def)
  have src: "map_option source_orientation
             (convert_roi_to_3d_preserving_dimensions st r v) = Some v"
    by (cases v) (simp_all add: convert_prior[OF assms])
  show ?thesis
    by (intro conjI; simp only: hid vis oth src)
qed

theorem prior_roi_hidden_pair_preserved_witness:
  "image ((sample_state 512 512 300 150)\<lparr>roi_rect_3d := Some sample_roi\<rparr>)
     = Some \<lparr>size0 = 512, size1 = 512, size2 = 300\<rparr>
   \<and> roi_rect_3d ((sample_state 512 512 300 150)\<lparr>roi_rect_3d := Some sample_roi\<rparr>)
     = Some sample_roi
   \<and> map_option (hidden_pair Axial)
       (convert_roi_to_3d_preserving_dimensions
          ((sample_state 512 512 300 150)\<lparr>roi_rect_3d := Some sample_roi\<rparr>)
          (sample_rect 50 50 100 100) Axial)
     = Some (5, 9)
   \<and> map_option (visible_pairs Axial)
       (convert_roi_to_3d_preserving_dimensions
          ((sample_state 512 512 300 150)\<lparr>roi_rect_3d := Some sample_roi\<rparr>)
          (sample_rect 50 50 100 100) Axial)
     = map_option (visible_pairs Axial)
         (convert_roi_to_3d_preserving_dimensions (sample_state 512 512 300 150)
            (sample_rect 50 50 100 100) Axial)
   \<and> map_option source_orientation
       (convert_roi_to_3d_preserving_dimensions
          ((sample_state 512 512 300 150)\<lparr>roi_rect_3d := Some sample_roi\<rparr>)
          (sample_rect 50 50 100 100) Axial)
     = Some Axial"
proof -
  let ?st = "(sample_state 512 512 300 150)\<lparr>roi_rect_3d := Some sample_roi\<rparr>"
  have h1: "image ?st = Some \<lparr>size0 = 512, size1 = 512, size2 = 300\<rparr>"
    by (simp add: sample_state_def)
  have h2: "roi_rect_3d ?st = Some sample_roi"
    by simp
  have n: "?st\<lparr>roi_rect_3d := None\<rparr> = sample_state 512 512 300 150"
    by (simp add: sample_state_def)
  have "hidden_pair Axial sample_roi = (5, 9)"
    by (simp add: hidden_pair_def sample_roi_def)
  then show ?thesis
    using h1 h2
      prior_roi_hidden_pair_preserved[OF h1 h2, of Axial "sample_rect 50 50 100 100" None]
    unfolding n by simp
qed








section \<open>Projecting the 3D ROI back into a view\<close>

lemma floor_edge_bounds:
  assumes "0 < n" and "0 \<le> e"
  shows "e - 400 / real_of_int n
           < real_of_int \<lfloor>e * (real_of_int n / 400)\<rfloor> * (400 / real_of_int n)
       \<and> real_of_int \<lfloor>e * (real_of_int n / 400)\<rfloor> * (400 / real_of_int n) \<le> e"
proof -
  let ?s = "real_of_int n / 400"
  let ?f = "real_of_int \<lfloor>e * ?s\<rfloor>"
  have s: "0 < ?s" using assms by simp
  have inv: "400 / real_of_int n = 1 / ?s" by simp
  have up: "?f \<le> e * ?s" by (rule of_int_floor_le)
  have lo: "e * ?s - 1 < ?f" by linarith
  have "?f / ?s \<le> e" using up s by (simp add: pos_divide_le_eq)
  moreover have "e - 1 / ?s < ?f / ?s"
  proof -
    have "(e * ?s - 1) / ?s < ?f / ?s" using lo s by (rule divide_strict_right_mono)
    moreover have "(e * ?s - 1) / ?s = e - 1 / ?s" using s by (simp add: diff_divide_distrib)
    ultimately show ?thesis by simp
  qed
  ultimately show ?thesis unfolding inv by simp
qed

text \<open>
  One side of the rectangle, scaled to indices and back: with exact products each end
  comes back less than one voxel below where it was drawn, and never above.
\<close>

lemma side_roundtrip:
  assumes "0 < n" and "0 \<le> lo" and "0 \<le> len" and "lo + len \<le> 400"
  shows "lo - 400 / real_of_int n
           < real_of_int (fst (scaled_pair n lo len)) * (400 / real_of_int n)
       \<and> real_of_int (fst (scaled_pair n lo len)) * (400 / real_of_int n) \<le> lo
       \<and> lo + len - 400 / real_of_int n
           < real_of_int (fst (scaled_pair n lo len)) * (400 / real_of_int n)
             + real_of_int (snd (scaled_pair n lo len) - fst (scaled_pair n lo len))
                 * (400 / real_of_int n)
       \<and> real_of_int (fst (scaled_pair n lo len)) * (400 / real_of_int n)
             + real_of_int (snd (scaled_pair n lo len) - fst (scaled_pair n lo len))
                 * (400 / real_of_int n)
           \<le> lo + len"
proof -
  have e: "0 \<le> lo + len" using assms by simp
  have "real_of_int (fst (scaled_pair n lo len)) * (400 / real_of_int n)
          + real_of_int (snd (scaled_pair n lo len) - fst (scaled_pair n lo len))
              * (400 / real_of_int n)
        = real_of_int (snd (scaled_pair n lo len)) * (400 / real_of_int n)"
    by (simp add: diff_divide_distrib)
  then show ?thesis
    using floor_edge_bounds[OF assms(1,2)] floor_edge_bounds[OF assms(1) e]
    by (simp add: scaled_pair_exact[OF assms])
qed

lemma side_near:
  assumes "0 < n"
    and "e - 400 / real_of_int n < e'" and "e' \<le> e"
  shows "edge_near n e e'"
proof -
  have "0 < 400 / real_of_int n" using assms(1) by simp
  then show ?thesis
    unfolding edge_near_def using assms(2,3) by linarith
qed

lemma project_new:
  assumes img: "image st = Some sz" and new: "roi_rect_3d st = None"
    and pos: "0 < size0 sz" "0 < size1 sz" "0 < size2 sz"
  shows "edit_then_project st r v =
     Some \<lparr>rect_x = real_of_int (fst (scaled_pair (fst (view_dims sz v)) (rect_x r) (rect_width r)))
                      * (400 / real_of_int (fst (view_dims sz v))),
           rect_y = real_of_int (fst (scaled_pair (snd (view_dims sz v)) (rect_y r) (rect_height r)))
                      * (400 / real_of_int (snd (view_dims sz v))),
           rect_width =
             real_of_int (snd (scaled_pair (fst (view_dims sz v)) (rect_x r) (rect_width r))
                          - fst (scaled_pair (fst (view_dims sz v)) (rect_x r) (rect_width r)))
               * (400 / real_of_int (fst (view_dims sz v))),
           rect_height =
             real_of_int (snd (scaled_pair (snd (view_dims sz v)) (rect_y r) (rect_height r))
                          - fst (scaled_pair (snd (view_dims sz v)) (rect_y r) (rect_height r)))
               * (400 / real_of_int (snd (view_dims sz v)))\<rparr>"
  using pos
  by (cases v)
     (simp_all add: edit_then_project_def img convert_new[OF img new] project_roi_def
        view_dims_def display_width_def display_height_def Let_def)

lemma propagate_edit:
  assumes img: "image st = Some sz"
    and p: "edit_then_project st r v = Some r'"
  shows "edit_then_propagate st r v =
          (if rect_width r' > 1 \<and> rect_height r' > 1
           then set_roi_from_external
                  (st\<lparr>roi_rect_3d := convert_roi_to_3d_preserving_dimensions st r v\<rparr>) v (Some r')
           else st\<lparr>roi_rect_3d := convert_roi_to_3d_preserving_dimensions st r v\<rparr>)"
  using p
  by (auto simp: edit_then_project_def edit_then_propagate_def
        propagate_roi_to_single_view_def img split: option.splits)

text \<open>
  C7. For a volume with positive dimensions, no existing ROI, any orientation and any
  rectangle inside the 400 x 400 display, the projection of the new 3D ROI into the
  same orientation is a rectangle equal to the drawn one up to the rounding of the
  index scale: each of its four edges lies less than two voxels (a voxel is
  400 / dimension display units) from the drawn edge. That rectangle is what
  propagate\_roi\_to\_single\_view hands to the view, provided it is more than one
  display unit wide and high (smaller ones are skipped, the edge case of the
  specification); a drawn rectangle at least 1 + 2 voxels wide and high always passes.
\<close>

theorem roundtrip_within_rounding:
  assumes img: "image st = Some sz" and new: "roi_rect_3d st = None"
    and pos: "0 < size0 sz" "0 < size1 sz" "0 < size2 sz"
    and rect: "rect_inside_display r"
  shows "\<exists>r'. edit_then_project st r v = Some r'
             \<and> within_rounding (view_dims sz v) r r'
             \<and> (1 < rect_width r' \<and> 1 < rect_height r' \<longrightarrow>
                  view_roi (edit_then_propagate st r v) v = Some r')
             \<and> (1 + 2 * (400 / real_of_int (fst (view_dims sz v))) \<le> rect_width r
                  \<and> 1 + 2 * (400 / real_of_int (snd (view_dims sz v))) \<le> rect_height r \<longrightarrow>
                  view_roi (edit_then_propagate st r v) v = Some r')"
proof -
  have x0: "0 \<le> rect_x r" "0 \<le> rect_width r" "rect_x r + rect_width r \<le> 400"
    and y0: "0 \<le> rect_y r" "0 \<le> rect_height r" "rect_y r + rect_height r \<le> 400"
    using rect by (auto simp: rect_inside_display_def)
  have d: "0 < fst (view_dims sz v)" "0 < snd (view_dims sz v)"
    using pos by (cases v; simp add: view_dims_def)+
  have vx: "0 < 400 / real_of_int (fst (view_dims sz v))"
    and vy: "0 < 400 / real_of_int (snd (view_dims sz v))"
    using d by simp_all
  let ?r' = "the (edit_then_project st r v)"
  note pn = project_new[OF img new pos, of r v]
  note sx = side_roundtrip[OF d(1) x0]
  note sy = side_roundtrip[OF d(2) y0]
  have p: "edit_then_project st r v = Some ?r'"
    by (simp add: pn)
  have ex: "rect_x r - 400 / real_of_int (fst (view_dims sz v)) < rect_x ?r'"
      "rect_x ?r' \<le> rect_x r"
      "rect_x r + rect_width r - 400 / real_of_int (fst (view_dims sz v))
         < rect_x ?r' + rect_width ?r'"
      "rect_x ?r' + rect_width ?r' \<le> rect_x r + rect_width r"
    unfolding pn using sx by simp_all
  have ey: "rect_y r - 400 / real_of_int (snd (view_dims sz v)) < rect_y ?r'"
      "rect_y ?r' \<le> rect_y r"
      "rect_y r + rect_height r - 400 / real_of_int (snd (view_dims sz v))
         < rect_y ?r' + rect_height ?r'"
      "rect_y ?r' + rect_height ?r' \<le> rect_y r + rect_height r"
    unfolding pn using sy by simp_all
  have w: "within_rounding (view_dims sz v) r ?r'"
    unfolding within_rounding_def
    by (intro conjI side_near[OF d(1)] side_near[OF d(2)] ex ey)
  have push: "view_roi (edit_then_propagate st r v) v = Some ?r'"
    if "1 < rect_width ?r' \<and> 1 < rect_height ?r'"
    using that by (simp add: propagate_edit[OF img p] set_roi_from_external_def)
  have big: "1 < rect_width ?r' \<and> 1 < rect_height ?r'"
    if "1 + 2 * (400 / real_of_int (fst (view_dims sz v))) \<le> rect_width r
        \<and> 1 + 2 * (400 / real_of_int (snd (view_dims sz v))) \<le> rect_height r"
    using that ex ey vx vy by linarith
  show ?thesis
  proof (intro exI[of _ ?r'] conjI impI)
    show "edit_then_project st r v = Some ?r'" by (rule p)
    show "within_rounding (view_dims sz v) r ?r'" by (rule w)
    show "view_roi (edit_then_propagate st r v) v = Some ?r'"
      if "1 < rect_width ?r' \<and> 1 < rect_height ?r'"
      using that by (rule push)
    show "view_roi (edit_then_propagate st r v) v = Some ?r'"
      if "1 + 2 * (400 / real_of_int (fst (view_dims sz v))) \<le> rect_width r
          \<and> 1 + 2 * (400 / real_of_int (snd (view_dims sz v))) \<le> rect_height r"
      using that by (intro push big)
  qed
qed

theorem roundtrip_within_rounding_witness:
  "image (sample_state 512 512 300 150) = Some \<lparr>size0 = 512, size1 = 512, size2 = 300\<rparr>
   \<and> roi_rect_3d (sample_state 512 512 300 150) = None
   \<and> rect_inside_display (sample_rect 50 50 100 100)
   \<and> 1 + 2 * (400 / real_of_int (fst (view_dims \<lparr>size0 = 512, size1 = 512, size2 = 300\<rparr> Axial)))
        \<le> rect_width (sample_rect 50 50 100 100)
   \<and> 1 + 2 * (400 / real_of_int (snd (view_dims \<lparr>size0 = 512, size1 = 512, size2 = 300\<rparr> Axial)))
        \<le> rect_height (sample_rect 50 50 100 100)
   \<and> edit_then_project (sample_state 512 512 300 150) (sample_rect 50 50 100 100) Axial
       = Some (sample_rect 50 50 100 100)
   \<and> within_rounding (512, 512) (sample_rect 50 50 100 100) (sample_rect 50 50 100 100)
   \<and> view_roi (edit_then_propagate (sample_state 512 512 300 150)
                 (sample_rect 50 50 100 100) Axial) Axial
       = Some (sample_rect 50 50 100 100)"
proof -
  let ?st = "sample_state 512 512 300 150"
  let ?sz = "\<lparr>size0 = 512, size1 = 512, size2 = 300\<rparr>"
  let ?r = "sample_rect 50 50 100 100"
  have h1: "image ?st = Some ?sz" and h2: "roi_rect_3d ?st = None"
    by (simp_all add: sample_state_def)
  have h3: "0 < size0 ?sz" "0 < size1 ?sz" "0 < size2 ?sz"
    by simp_all
  have h4: "rect_inside_display ?r"
    by (simp add: rect_inside_display_def sample_rect_def)
  have e: "edit_then_project ?st ?r Axial = Some ?r"
    by (simp add: edit_then_project_def project_roi_def
          convert_roi_to_3d_preserving_dimensions_def sample_state_def sample_rect_def
          py_int_def display_width_def display_height_def Let_def)
  have vd: "view_dims ?sz Axial = (512, 512)"
    by (simp add: view_dims_def)
  have big: "1 + 2 * (400 / real_of_int (fst (view_dims ?sz Axial))) \<le> rect_width ?r"
      "1 + 2 * (400 / real_of_int (snd (view_dims ?sz Axial))) \<le> rect_height ?r"
    by (simp_all add: vd sample_rect_def)
  show ?thesis
    using h1 h2 h4 e big roundtrip_within_rounding[OF h1 h2 h3 h4, of Axial]
    by (auto simp: vd)
qed

section \<open>The ROI mask and the slice tests\<close>

lemma in_slice_inside:
  assumes "i < n" and "0 \<le> hi"
  shows "in_slice n (max 0 lo) (min (int n) hi) i = (lo \<le> int i \<and> int i < hi)"
  using assms by (auto simp: in_slice_def slice_bound_def)

lemma in_slice_stop:
  assumes "0 \<le> hi"
  shows "\<not> in_slice n (max 0 lo) (min (int n) hi) (nat hi)"
  using assms by (auto simp: in_slice_def slice_bound_def)

text \<open>
  C10, as stated, fails for a ROI with a negative upper bound and for one whose lower
  bound is above the upper one; the conversion produces both from rectangles outside
  the display. A rectangle above a coronal slice, at y = -60 and 37 high, in a
  400 x 400 x 300 volume gives the z pair 0..-17. In the mask the slice stop -17 counts
  from the end of the axis, so the mask is true for z from 0 to 282: it is true at the
  voxel (5, 150, 100), which is not in the half-open box. A rectangle right of an axial
  slice, at x = 500, in a 512 x 512 x 300 volume gives the x pair 640..512, and the
  sagittal slice at the max bound 512 is not reported as meeting the ROI.
\<close>

theorem mask_wraps_negative_bound_counterexample:
  "convert_roi_to_3d_preserving_dimensions (sample_state 400 400 300 150)
       (sample_rect 50 (- 60) 100 37) Coronal = Some wrapped_roi
   \<and> mask_value (get_roi_mask ((sample_state 400 400 300 150)\<lparr>roi_rect_3d := Some wrapped_roi\<rparr>)
        (300, 400, 400)) 5 150 100
   \<and> \<not> in_half_open_box wrapped_roi 5 150 100
   \<and> convert_roi_to_3d_preserving_dimensions (sample_state 512 512 300 150)
       (sample_rect 500 50 10 10) Axial = Some crossed_roi
   \<and> \<not> roi_intersects_sagittal_slice
         ((sample_state 512 512 300 150)\<lparr>roi_rect_3d := Some crossed_roi\<rparr>) (x_max crossed_roi)"
  by (simp add: convert_roi_to_3d_preserving_dimensions_def sample_state_def sample_rect_def
        py_int_def display_width_def display_height_def Let_def wrapped_roi_def crossed_roi_def
        mask_value_def get_roi_mask_def in_slice_def slice_bound_def in_half_open_box_def
        roi_intersects_sagittal_slice_def)

text \<open>
  C10, amended. For a 3D ROI whose upper bounds are not negative and a volume of any
  shape, the mask is true at a voxel of the volume exactly when the voxel lies in the
  half-open box [min, max) on each axis. The slice tests include the upper bound: on
  an axis with min <= max the slice whose index is the max bound is reported as
  meeting the ROI, while the mask has no true voxel in that slice. This holds on all
  three axes.
\<close>

theorem mask_half_open_slice_test_closed:
  assumes roi: "roi_rect_3d st = Some roi"
    and nonneg: "0 \<le> x_max roi" "0 \<le> y_max roi" "0 \<le> z_max roi"
  shows "(\<forall>z<d. \<forall>y<h. \<forall>x<w.
            mask_value (get_roi_mask st (d, h, w)) z y x = in_half_open_box roi z y x)
       \<and> (z_min roi \<le> z_max roi \<longrightarrow>
            roi_intersects_axial_slice st (z_max roi)
            \<and> (\<forall>y x. \<not> mask_value (get_roi_mask st (d, h, w)) (nat (z_max roi)) y x))
       \<and> (y_min roi \<le> y_max roi \<longrightarrow>
            roi_intersects_coronal_slice st (y_max roi)
            \<and> (\<forall>z x. \<not> mask_value (get_roi_mask st (d, h, w)) z (nat (y_max roi)) x))
       \<and> (x_min roi \<le> x_max roi \<longrightarrow>
            roi_intersects_sagittal_slice st (x_max roi)
            \<and> (\<forall>z y. \<not> mask_value (get_roi_mask st (d, h, w)) z y (nat (x_max roi))))"
proof -
  have m: "mask_value (get_roi_mask st (d, h, w)) z y x =
             (in_slice d (max 0 (z_min roi)) (min (int d) (z_max roi)) z
              \<and> in_slice h (max 0 (y_min roi)) (min (int h) (y_max roi)) y
              \<and> in_slice w (max 0 (x_min roi)) (min (int w) (x_max roi)) x)" for z y x
    by (simp add: mask_value_def get_roi_mask_def roi Let_def)
  have box: "\<forall>z<d. \<forall>y<h. \<forall>x<w.
            mask_value (get_roi_mask st (d, h, w)) z y x = in_half_open_box roi z y x"
    using nonneg by (auto simp: m in_slice_inside in_half_open_box_def)
  show ?thesis
    using box nonneg
    by (simp add: m in_slice_stop roi roi_intersects_axial_slice_def
          roi_intersects_coronal_slice_def roi_intersects_sagittal_slice_def)
qed

theorem mask_half_open_slice_test_closed_witness:
  "roi_rect_3d ((sample_state 30 50 20 7)\<lparr>roi_rect_3d := Some sample_roi\<rparr>) = Some sample_roi
   \<and> 0 \<le> x_max sample_roi \<and> 0 \<le> y_max sample_roi \<and> 0 \<le> z_max sample_roi
   \<and> z_min sample_roi \<le> z_max sample_roi
   \<and> (8::nat) < 20 \<and> (35::nat) < 50 \<and> (15::nat) < 30
   \<and> mask_value (get_roi_mask ((sample_state 30 50 20 7)\<lparr>roi_rect_3d := Some sample_roi\<rparr>)
        (20, 50, 30)) 8 35 15
   \<and> roi_intersects_axial_slice ((sample_state 30 50 20 7)\<lparr>roi_rect_3d := Some sample_roi\<rparr>) 9
   \<and> \<not> mask_value (get_roi_mask ((sample_state 30 50 20 7)\<lparr>roi_rect_3d := Some sample_roi\<rparr>)
        (20, 50, 30)) 9 35 15"
proof -
  let ?st = "(sample_state 30 50 20 7)\<lparr>roi_rect_3d := Some sample_roi\<rparr>"
  have h1: "roi_rect_3d ?st = Some sample_roi"
    by simp
  have h2: "0 \<le> x_max sample_roi" "0 \<le> y_max sample_roi" "0 \<le> z_max sample_roi"
    and h3: "z_min sample_roi \<le> z_max sample_roi"
    and z: "z_max sample_roi = 9"
    by (simp_all add: sample_roi_def)
  have b: "in_half_open_box sample_roi 8 35 15"
    by (simp add: in_half_open_box_def sample_roi_def)
  have n: "nat 9 = (9::nat)"
    by simp
  show ?thesis
    using h1 h2 h3 b mask_half_open_slice_test_closed[OF h1 h2, of 20 50 30]
    by (simp add: z n)
qed

section \<open>The re-entrancy flag\<close>


lemma on_roi_changed_idle:
  "\<not> roi_update_in_progress st \<Longrightarrow> \<not> roi_update_in_progress (on_roi_changed raises st r v)"
  unfolding on_roi_changed_def
  by (simp split: prod.splits outcome.splits)

lemma on_roi_changed_immediate_idle:
  "\<not> roi_update_in_progress st \<Longrightarrow>
   \<not> roi_update_in_progress (on_roi_changed_immediate raises st r v)"
  unfolding on_roi_changed_immediate_def
  by (simp split: prod.splits outcome.splits)

lemma handle_event_idle:
  "\<not> roi_update_in_progress st \<Longrightarrow> \<not> roi_update_in_progress (handle_event st e)"
  by (cases e) (simp_all add: on_roi_changed_idle on_roi_changed_immediate_idle)


lemma handle_event_dropped:
  "roi_update_in_progress st \<Longrightarrow> handle_event st e = st"
  by (cases e) (simp_all add: on_roi_changed_def on_roi_changed_immediate_def)

lemma handle_events_idle:
  "\<not> roi_update_in_progress st \<Longrightarrow> \<not> roi_update_in_progress (handle_events st es)"
proof (induction es arbitrary: st)
  case Nil
  then show ?case by simp
next
  case (Cons e es)
  have "\<not> roi_update_in_progress (handle_event st e)"
    using Cons.prems by (rule handle_event_idle)
  then have "\<not> roi_update_in_progress (handle_events (handle_event st e) es)"
    by (rule Cons.IH)
  then show ?case by simp
qed

text \<open>
  C9. An edit event (of either handler) that finds the flag set leaves the whole state
  as it is: no 3D ROI update, no propagation. An event that finds the flag clear
  ends with the flag clear, whichever statements of the handler raise; so from the
  idle state the controller is idle again after every event of any sequence.
\<close>

theorem reentrant_event_dropped_and_idle_restored:
  "(roi_update_in_progress st \<longrightarrow> handle_event st e = st)
   \<and> (\<not> roi_update_in_progress st \<longrightarrow> \<not> roi_update_in_progress (handle_event st e))
   \<and> (\<not> roi_update_in_progress st \<longrightarrow> \<not> roi_update_in_progress (handle_events st es))"
  using handle_event_dropped[of st e] handle_event_idle[of st e] handle_events_idle[of st es]
  by blast

theorem reentrant_event_dropped_and_idle_restored_witness:
  "roi_update_in_progress ((sample_state 512 512 300 150)\<lparr>roi_update_in_progress := True\<rparr>)
   \<and> handle_event ((sample_state 512 512 300 150)\<lparr>roi_update_in_progress := True\<rparr>)
        (RoiChanged (\<lambda>s. s = AtIsEmpty) (Some (sample_rect 50 50 100 100)) Axial)
       = (sample_state 512 512 300 150)\<lparr>roi_update_in_progress := True\<rparr>
   \<and> \<not> roi_update_in_progress (sample_state 512 512 300 150)
   \<and> \<not> roi_update_in_progress
         (handle_event (sample_state 512 512 300 150)
            (RoiChanged (\<lambda>s. s = AtIsEmpty) (Some (sample_rect 50 50 100 100)) Axial))
   \<and> \<not> roi_update_in_progress
         (handle_events (sample_state 512 512 300 150)
            [RoiChanged (\<lambda>s. s = AtIsEmpty) (Some (sample_rect 50 50 100 100)) Axial,
             RoiChangedImmediate (\<lambda>s. False) (sample_rect 50 50 100 100) Coronal])"
proof -
  let ?idle = "sample_state 512 512 300 150"
  let ?busy = "?idle\<lparr>roi_update_in_progress := True\<rparr>"
  let ?e = "RoiChanged (\<lambda>s. s = AtIsEmpty) (Some (sample_rect 50 50 100 100)) Axial"
  let ?es = "[?e, RoiChangedImmediate (\<lambda>s. False) (sample_rect 50 50 100 100) Coronal]"
  have h1: "roi_update_in_progress ?busy"
    by simp
  have h2: "\<not> roi_update_in_progress ?idle"
    by (simp add: sample_state_def)
  note busy = reentrant_event_dropped_and_idle_restored[of ?busy ?e ?es]
  note idle = reentrant_event_dropped_and_idle_restored[of ?idle ?e ?es]
  have c1: "handle_event ?busy ?e = ?busy"
    using busy h1 by (elim conjE) (erule mp)
  have c2: "\<not> roi_update_in_progress (handle_event ?idle ?e)"
    using idle h2 by (elim conjE) (erule (1) mp)
  have c3: "\<not> roi_update_in_progress (handle_events ?idle ?es)"
    using idle h2 by (elim conjE) (erule (1) mp)
  show ?thesis
    by (intro conjI h1 h2 c1 c2 c3)
qed




section \<open>Sampling the volume at mesh vertices; the iso-level\<close>


lemma np_clip_idem: "np_clip (np_clip a lo hi) lo hi = np_clip a lo hi"
  by (simp add: np_clip_def min_def max_def)

lemma np_clip_lattice:
  assumes "i < n"
  shows "np_clip (real i) 0 (real_of_int (int n - 1)) = real i"
proof -
  have "Suc i \<le> n" using assms by simp
  then have "real (Suc i) \<le> real n" by (simp only: of_nat_le_iff)
  then have "real i + 1 \<le> real n" by simp
  then show ?thesis by (simp add: np_clip_def min_def max_def)
qed

lemma clamp_index_lattice: "i < n \<Longrightarrow> clamp_index n (int i) = int i"
  by (auto simp: clamp_index_def)

lemma clamp_index_range: "0 < n \<Longrightarrow> 0 \<le> clamp_index n i \<and> clamp_index n i < int n"
  by (auto simp: clamp_index_def)

lemma lattice_bounds_clipped:
  "lattice_bounds n (np_clip c 0 (real_of_int (int n - 1))) = lattice_bounds n c"
  by (simp only: lattice_bounds_def np_clip_idem)

lemma lattice_bounds_lattice:
  assumes "i < n"
  shows "lattice_bounds n (real i) = (real i, int i, int i)"
  unfolding lattice_bounds_def np_clip_lattice[OF assms] Let_def
  by (simp add: clamp_index_lattice[OF assms])

lemma lattice_bounds_range:
  assumes "0 < n" and "lattice_bounds n c = (c', lo, hi)"
  shows "(0 \<le> lo \<and> lo < int n) \<and> (0 \<le> hi \<and> hi < int n)"
  using assms(2) clamp_index_range[OF assms(1)]
  by (auto simp: lattice_bounds_def Let_def)

lemma trilinear_corner: "trilinear a b c d e f g h 0 0 0 = a"
  by (simp add: trilinear_def)

lemma getitem_inside:
  assumes "shape vol = (d, h, w)"
    and "0 \<le> zi \<and> zi < int d" and "0 \<le> yi \<and> yi < int h" and "0 \<le> xi \<and> xi < int w"
  shows "getitem vol zi yi xi = Some (voxel vol (nat zi) (nat yi) (nat xi))"
  using assms by (simp add: getitem_def np_index_def)

lemma interpolate_vertex_clipped:
  assumes "shape vol = (d, h, w)"
  shows "interpolate_vertex vol (np_clip z 0 (real_of_int (int d - 1)),
                                np_clip y 0 (real_of_int (int h - 1)),
                                np_clip x 0 (real_of_int (int w - 1)))
         = interpolate_vertex vol (z, y, x)"
  by (simp only: interpolate_vertex_def assms prod.case lattice_bounds_clipped)

lemma interpolate_vertex_defined:
  assumes sh: "shape vol = (d, h, w)" and pos: "0 < d" "0 < h" "0 < w"
  shows "interpolate_vertex vol v \<noteq> None"
proof -
  obtain vz vy vx where v: "v = (vz, vy, vx)" by (cases v)
  obtain z z0 z1 where bz: "lattice_bounds d vz = (z, z0, z1)" by (cases "lattice_bounds d vz")
  obtain y y0 y1 where by': "lattice_bounds h vy = (y, y0, y1)" by (cases "lattice_bounds h vy")
  obtain x x0 x1 where bx: "lattice_bounds w vx = (x, x0, x1)" by (cases "lattice_bounds w vx")
  note rz = lattice_bounds_range[OF pos(1) bz]
  note ry = lattice_bounds_range[OF pos(2) by']
  note rx = lattice_bounds_range[OF pos(3) bx]
  note g = getitem_inside[OF sh]
  show ?thesis
    unfolding v interpolate_vertex_def sh prod.case bz by' bx
      g[OF conjunct1[OF rz] conjunct1[OF ry] conjunct1[OF rx]]
      g[OF conjunct1[OF rz] conjunct1[OF ry] conjunct2[OF rx]]
      g[OF conjunct1[OF rz] conjunct2[OF ry] conjunct1[OF rx]]
      g[OF conjunct1[OF rz] conjunct2[OF ry] conjunct2[OF rx]]
      g[OF conjunct2[OF rz] conjunct1[OF ry] conjunct1[OF rx]]
      g[OF conjunct2[OF rz] conjunct1[OF ry] conjunct2[OF rx]]
      g[OF conjunct2[OF rz] conjunct2[OF ry] conjunct1[OF rx]]
      g[OF conjunct2[OF rz] conjunct2[OF ry] conjunct2[OF rx]]
    by simp
qed

lemma interpolate_vertex_lattice:
  assumes sh: "shape vol = (d, h, w)" and "i < d" and "j < h" and "k < w"
  shows "interpolate_vertex vol (real i, real j, real k) = Some (voxel vol i j k)"
proof -
  have g: "getitem vol (int i) (int j) (int k) = Some (voxel vol i j k)"
    using assms by (simp add: getitem_def np_index_def)
  have w0: "interp_weight a m m = 0" for a m
    by (simp add: interp_weight_def)
  show ?thesis
    unfolding interpolate_vertex_def sh prod.case
      lattice_bounds_lattice[OF assms(2)] lattice_bounds_lattice[OF assms(3)]
      lattice_bounds_lattice[OF assms(4)] g w0 trilinear_corner
    by simp
qed


text \<open>
  C5. On a volume with no empty axis, the sample at a vertex is the sample at the
  vertex with every coordinate clipped to [0, dim - 1], and it never fails; the
  interpolation weight is 0 when the two lattice bounds of an axis coincide; and at
  integer lattice coordinates inside the volume, interior or on the border, the
  sample (also through the batched function) is exactly the stored voxel value.
\<close>

theorem sample_clamps_and_exact_on_lattice:
  assumes "shape vol = (d, h, w)" and "0 < d" and "0 < h" and "0 < w"
  shows "interpolate_vertex vol (z, y, x) =
           interpolate_vertex vol (np_clip z 0 (real_of_int (int d - 1)),
                                   np_clip y 0 (real_of_int (int h - 1)),
                                   np_clip x 0 (real_of_int (int w - 1)))
       \<and> interpolate_vertex vol (z, y, x) \<noteq> None
       \<and> interp_weight c c0 c0 = 0
       \<and> (\<forall>i<d. \<forall>j<h. \<forall>k<w.
            interpolate_vertex vol (real i, real j, real k) = Some (voxel vol i j k)
            \<and> interpolate_density_at_vertices vol [(real i, real j, real k)]
                = [Some (voxel vol i j k)])"
proof (intro conjI allI impI)
  show "interpolate_vertex vol (z, y, x) =
           interpolate_vertex vol (np_clip z 0 (real_of_int (int d - 1)),
                                   np_clip y 0 (real_of_int (int h - 1)),
                                   np_clip x 0 (real_of_int (int w - 1)))"
    by (rule interpolate_vertex_clipped[OF assms(1), symmetric])
  show "interpolate_vertex vol (z, y, x) \<noteq> None"
    by (rule interpolate_vertex_defined[OF assms])
  show "interp_weight c c0 c0 = 0"
    by (simp add: interp_weight_def)
next
  fix i j k assume "i < d" "j < h" "k < w"
  then show l: "interpolate_vertex vol (real i, real j, real k) = Some (voxel vol i j k)"
    by (rule interpolate_vertex_lattice[OF assms(1)])
  show "interpolate_density_at_vertices vol [(real i, real j, real k)] = [Some (voxel vol i j k)]"
    by (simp add: interpolate_density_at_vertices_def l)
qed

theorem sample_clamps_and_exact_on_lattice_witness:
  "shape (row_volume [10, 20, 40]) = (1, 1, 3)
   \<and> (0::nat) < 1 \<and> (0::nat) < 3 \<and> (2::nat) < 3
   \<and> interpolate_vertex (row_volume [10, 20, 40]) (0, 0, 2) = Some 40
   \<and> interpolate_vertex (row_volume [10, 20, 40]) (5, - 3, 7)
       = interpolate_vertex (row_volume [10, 20, 40]) (0, 0, 2)"
proof -
  let ?vol = "row_volume [10, 20, 40]"
  have sh: "shape ?vol = (1, 1, 3)" by (simp add: row_volume_def)
  have p: "(0::nat) < 1" "(0::nat) < 1" "(0::nat) < 3" by simp_all
  have k: "(2::nat) < 3" by simp
  note t = sample_clamps_and_exact_on_lattice[OF sh p]
  have v: "voxel ?vol 0 0 2 = 40" by (simp add: row_volume_def)
  have lat: "interpolate_vertex ?vol (real 0, real 0, real 2) = Some (voxel ?vol 0 0 2)"
    using t[of 0 0 0 0 0] p k by blast
  have cl: "interpolate_vertex ?vol (5, - 3, 7) =
            interpolate_vertex ?vol (np_clip 5 0 (real_of_int (int 1 - 1)),
                                     np_clip (- 3) 0 (real_of_int (int 1 - 1)),
                                     np_clip 7 0 (real_of_int (int 3 - 1)))"
    using t[of 5 "- 3" 7 0 0] by blast
  have c: "np_clip 5 0 0 = 0" "np_clip (- 3) 0 0 = 0" "np_clip 7 0 2 = 2"
    by (simp_all add: np_clip_def)
  show ?thesis
    using sh k lat cl by (simp add: v c)
qed

lemma ravel_row_volume: "ravel (row_volume xs) = xs"
  by (simp add: ravel_def row_volume_def map_nth)

lemma Min_le_Max_list: "xs \<noteq> [] \<Longrightarrow> Min (set xs) \<le> Max (set xs)"
  by (metis List.finite_set Max_ge Min_le list.set_sel(1) order_trans)

text \<open>
  C6, as stated, fails: an iso-level supplied by the caller is handed to marching
  cubes as it is. For the values 0 and 100 the middle 80 percent is [10, 90]; the
  supplied level 95 is used unchanged.
\<close>

theorem explicit_iso_level_not_clamped_counterexample:
  "create_density_colored_surface_iso_level (row_volume [0, 100]) (Some 95) = Some 95
   \<and> marching_cubes_level (update_iso_level no_surface (row_volume [0, 100]) 95) = Some 95
   \<and> \<not> in_middle_80 (row_volume [0, 100]) 95"
  by (simp add: create_density_colored_surface_iso_level_def update_iso_level_def
        create_density_colored_surface_def in_middle_80_def ravel_row_volume)

text \<open>
  C6, amended. On a non-empty volume an iso-level supplied by the caller (directly or
  through update\_iso\_level) is the level marching cubes is called with, unchanged;
  only the default level, chosen when none is supplied, is clamped to the middle 80
  percent of the value range, [min + 0.1 range, max - 0.1 range].
\<close>

theorem explicit_iso_level_used_default_clamped:
  assumes "ravel vol \<noteq> []"
  shows "create_density_colored_surface_iso_level vol (Some l) = Some l
       \<and> marching_cubes_level (update_iso_level marching_cubes vol l) = Some l
       \<and> (\<exists>l0. create_density_colored_surface_iso_level vol None = Some l0
                \<and> marching_cubes_level (create_density_colored_surface marching_cubes vol None)
                    = Some l0
                \<and> in_middle_80 vol l0)"
proof -
  have r: "Min (set (ravel vol)) \<le> Max (set (ravel vol))"
    using assms by (rule Min_le_Max_list)
  have k: "L \<le> max L (min a H) \<and> max L (min a H) \<le> H" if "L \<le> H" for L H a :: real
    using that by (auto simp: max_def min_def)
  have e: "lo + (hi - lo) * 0.1 \<le> hi - (hi - lo) * 0.1" if "lo \<le> hi" for lo hi :: real
    using that by (simp add: field_simps)
  note cl = k[OF e[OF r]]
  show ?thesis
    using assms cl
    by (simp add: create_density_colored_surface_iso_level_def update_iso_level_def
          create_density_colored_surface_def in_middle_80_def Let_def)
qed

theorem explicit_iso_level_used_default_clamped_witness:
  "ravel (row_volume [0, 100]) \<noteq> []
   \<and> create_density_colored_surface_iso_level (row_volume [0, 100]) (Some 95) = Some 95
   \<and> marching_cubes_level (update_iso_level no_surface (row_volume [0, 100]) 95) = Some 95"
proof -
  have h: "ravel (row_volume [0, 100]) \<noteq> []" by (simp add: ravel_row_volume)
  show ?thesis using h explicit_iso_level_used_default_clamped[OF h, of 95 no_surface] by simp
qed



section \<open>The tissue filter of the density mapper\<close>


lemma bone_filter_min:
  fixes raw :: "real list"
  assumes "filter (\<lambda>v. 150 < v) raw \<noteq> []"
  shows "Min (set (map (\<lambda>v. if 150 < v then v else Min (set (filter (\<lambda>v. 150 < v) raw))) raw))
           = Min (set (filter (\<lambda>v. 150 < v) raw))"
proof -
  let ?bone = "filter (\<lambda>v. 150 < v) raw"
  let ?m = "Min (set ?bone)"
  let ?out = "map (\<lambda>v. if 150 < v then v else ?m) raw"
  have ne: "set ?bone \<noteq> {}" using assms by (simp only: set_empty not_False_eq_True)
  have m_in: "?m \<in> set ?bone" using ne by (intro Min_in) simp_all
  then have "?m \<in> set raw" "150 < ?m" by simp_all
  then have in_out: "?m \<in> set ?out" by force
  have lower: "?m \<le> y" if "y \<in> set ?out" for y
  proof -
    from that obtain v where v: "v \<in> set raw" "y = (if 150 < v then v else ?m)" by auto
    show ?thesis
    proof (cases "150 < v")
      case True
      then have "v \<in> set ?bone" using v by simp
      then have "?m \<le> v" by (intro Min_le) simp_all
      then show ?thesis using v True by simp
    next
      case False
      then show ?thesis using v by simp
    qed
  qed
  show ?thesis
    by (rule Min_eqI) (use in_out lower in simp_all)
qed

text \<open>
  C4. With an original density field, an iso-level above 100, and more than 30 percent
  of the resampled vertex values above 150, the density mapper returns the resampled
  values with every value that does not exceed 150 replaced by the least of the values
  that do; the minimum of the returned field is therefore the minimum of the values
  above 150, not the minimum of the raw values.
\<close>

theorem bone_surface_density_filtered:
  assumes iso: "100 < iso_level"
    and raw: "map_coordinates od (clamped_coords od vs) = Some raw"
    and frac: "real (length raw) * 0.3 < real (length (filter (\<lambda>v. 150 < v) raw))"
  shows "\<exists>out. sample_density_at_vertices_for_surface map_coordinates (Some od) vol vs iso_level
                 = Some out
              \<and> out = map (\<lambda>v. if 150 < v then v else Min (set (filter (\<lambda>v. 150 < v) raw))) raw
              \<and> Min (set out) = Min (set (filter (\<lambda>v. 150 < v) raw))"
proof -
  have bone: "filter (\<lambda>v. 150 < v) raw \<noteq> []"
  proof
    assume "filter (\<lambda>v. 150 < v) raw = []"
    then have "real (length raw) * 0.3 < 0" using frac by simp
    then show False by simp
  qed
  then have ne: "raw \<noteq> []" by auto
  have "sample_density_at_vertices_for_surface map_coordinates (Some od) vol vs iso_level
          = Some (map (\<lambda>v. if 150 < v then v else Min (set (filter (\<lambda>v. 150 < v) raw))) raw)"
    using iso frac ne
    by (simp add: sample_density_at_vertices_for_surface_def raw Let_def)
  then show ?thesis using bone_filter_min[OF bone] by simp
qed

theorem bone_surface_density_filtered_witness:
  "(100::real) < 500
   \<and> fixed_sampler [100, 200, 300, 120, 140] (row_volume [100, 200, 300, 120, 140])
        (clamped_coords (row_volume [100, 200, 300, 120, 140]) [(0, 0, 0), (1, 0, 0), (2, 0, 0), (3, 0, 0), (4, 0, 0)])
       = Some [100, 200, 300, 120, 140]
   \<and> real (length [100, 200, 300, 120, 140 :: real]) * 0.3
        < real (length (filter (\<lambda>v. 150 < v) [100, 200, 300, 120, 140 :: real]))
   \<and> sample_density_at_vertices_for_surface (fixed_sampler [100, 200, 300, 120, 140])
        (Some (row_volume [100, 200, 300, 120, 140])) (row_volume [100, 200, 300, 120, 140])
        [(0, 0, 0), (1, 0, 0), (2, 0, 0), (3, 0, 0), (4, 0, 0)] 500
       = Some [200, 200, 300, 200, 200]"
proof -
  let ?raw = "[100, 200, 300, 120, 140 :: real]"
  let ?vol = "row_volume ?raw"
  let ?vs = "[(0, 0, 0), (1, 0, 0), (2, 0, 0), (3, 0, 0), (4, 0, 0)] :: vertex list"
  have h2: "(100::real) < 500" by simp
  have h3: "fixed_sampler ?raw ?vol (clamped_coords ?vol ?vs) = Some ?raw"
    by (simp add: fixed_sampler_def)
  have h4: "real (length ?raw) * 0.3 < real (length (filter (\<lambda>v. 150 < v) ?raw))"
    by simp
  have m: "Min (set (filter (\<lambda>v. 150 < v) ?raw)) = 200" by simp
  show ?thesis
    using h2 h3 h4
      bone_surface_density_filtered[where iso_level = 500 and map_coordinates = "fixed_sampler ?raw" and od = ?vol
           and vs = ?vs and raw = ?raw and vol = ?vol, OF h2 h3 h4]
    by (simp add: m)
qed

section \<open>Fields without variation\<close>

text \<open>
  C1. For a non-empty field whose maximum is not above its minimum, update\_scene ends
  in the degenerate-range case: the scene is cleared, nothing else changes, and
  marching cubes is not called. The caller build\_3d\_view, given such a field as raw
  data (no processing applied), does not get that far: its validity check raises, and
  its handler raises UnboundLocalError at traceback.print\_exc() before it shows the
  message box, whatever the state of the widget. The exception leaves
  build\_3d\_view: the caller does not fall back without crashing.
\<close>

theorem degenerate_range_handler_unbound_local:
  assumes ne: "ravel (data vis) \<noteq> []"
    and flat: "Max (set (ravel (data vis))) \<le> Min (set (ravel (data vis)))"
  shows "update_scene marching_cubes map_coordinates vis
           = (vis\<lparr>scene := []\<rparr>, DegenerateRangeError)
       \<and> marching_cubes_calls (fst (update_scene marching_cubes map_coordinates vis))
           = marching_cubes_calls vis
       \<and> build_3d_view marching_cubes map_coordinates widget False (data vis) orig vis0
           = Escaped UnboundLocalError"
  using assms
  by (simp add: update_scene_def build_3d_view_def build_3d_view_handler_def Let_def)

theorem degenerate_range_handler_unbound_local_witness:
  "ravel (data (sample_visualization [7, 7, 7])) \<noteq> []
   \<and> Max (set (ravel (data (sample_visualization [7, 7, 7]))))
       \<le> Min (set (ravel (data (sample_visualization [7, 7, 7]))))
   \<and> update_scene no_surface (fixed_sampler []) (sample_visualization [7, 7, 7])
       = ((sample_visualization [7, 7, 7])\<lparr>scene := []\<rparr>, DegenerateRangeError)
   \<and> marching_cubes_calls
        (fst (update_scene no_surface (fixed_sampler []) (sample_visualization [7, 7, 7]))) = []
   \<and> build_3d_view no_surface (fixed_sampler []) WidgetReady False
         (row_volume [7, 7, 7]) (row_volume [7, 7, 7]) (sample_visualization [1, 2])
       = Escaped UnboundLocalError"
proof -
  let ?vis = "sample_visualization [7, 7, 7]"
  have d: "data ?vis = row_volume [7, 7, 7]"
    by (simp add: sample_visualization_def)
  have r: "ravel (data ?vis) = [7, 7, 7]"
    by (simp add: sample_visualization_def ravel_row_volume)
  have h1: "ravel (data ?vis) \<noteq> []" by (simp add: r)
  have h2: "Max (set (ravel (data ?vis))) \<le> Min (set (ravel (data ?vis)))" by (simp add: r)
  have c: "marching_cubes_calls ?vis = []" by (simp add: sample_visualization_def)
  note t = degenerate_range_handler_unbound_local[OF h1 h2, of no_surface "fixed_sampler []"
             WidgetReady "row_volume [7, 7, 7]" "sample_visualization [1, 2]"]
  show ?thesis
    using h1 h2 t unfolding d
    by (simp add: c)
qed


end
